theory Spec2Isabelle
  imports Complex_Main "HOL-Library.Sublist"
begin

section \<open>Data model of the analysis route\<close>

text \<open>
  The development follows \<open>src/app/api/news/analyze/route.ts\<close>. A JavaScript string
  is the list of its UTF-16 code units, each a number below 65536, which is what
  \<open>length\<close>, \<open>substring\<close>, \<open>includes\<close>, \<open>trim\<close> and a regular expression
  without the \<open>u\<close> flag work on. \<open>lit\<close> turns a literal of ASCII (or Latin-1)
  characters into such a string. JavaScript numbers that carry times are integers
  (milliseconds), numbers that come out of a page or of a JSON text are rationals.
\<close>

type_synonym code_unit = nat

type_synonym jstring = "code_unit list"

definition lit :: "string \<Rightarrow> jstring" where
  "lit s = map of_char s"

text \<open>The interface \<open>NaverNewsItem\<close>: one search result.\<close>

record NaverNewsItem =
  title :: jstring
  originallink :: jstring
  link :: jstring
  description :: jstring
  pubDate :: jstring

section \<open>Deduplication by link\<close>

text \<open>
  \<open>new Map(entries)\<close> inserts the entries one by one with \<open>Map.prototype.set\<close>: a key
  that is already present keeps its position in the insertion order and takes the new
  value, a new key is appended. The map is kept as the list of its entries in
  insertion order.
\<close>

fun Map_set :: "'k \<Rightarrow> 'v \<Rightarrow> ('k \<times> 'v) list \<Rightarrow> ('k \<times> 'v) list" where
  "Map_set k v [] = [(k, v)]"
| "Map_set k v (p # ps) = (if fst p = k then (k, v) # ps else p # Map_set k v ps)"

definition new_Map :: "('k \<times> 'v) list \<Rightarrow> ('k \<times> 'v) list" where
  "new_Map entries = foldl (\<lambda>m (k, v). Map_set k v m) [] entries"

definition Map_values :: "('k \<times> 'v) list \<Rightarrow> 'v list" where
  "Map_values m = map snd m"

text \<open>
  \<open>Array.from(new Map(allNews.map(item => [item.link, item])).values())\<close>, the
  expression both routes use to remove duplicates.
\<close>

definition uniqueNews_of :: "NaverNewsItem list \<Rightarrow> NaverNewsItem list" where
  "uniqueNews_of allNews = Map_values (new_Map (map (\<lambda>item. (link item, item)) allNews))"

text \<open>The order in which keys are first seen: what is left of a list when every later
  repetition of an element is dropped.\<close>

fun first_seen :: "'k list \<Rightarrow> 'k list" where
  "first_seen [] = []"
| "first_seen (k # ks) = k # first_seen (filter (\<lambda>x. x \<noteq> k) ks)"

section \<open>Strings as the runtime handles them\<close>

text \<open>
  \<open>String.prototype.trim\<close> strips the white space and the line terminators of
  ECMAScript from both ends: TAB, LF, VT, FF, CR, space, the no-break space U+00A0,
  U+1680, U+2000 to U+200A, U+2028, U+2029, U+202F, U+205F, U+3000 and U+FEFF.
\<close>

definition is_space :: "code_unit \<Rightarrow> bool" where
  "is_space c =
     (c \<in> set [0x09, 0x0A, 0x0B, 0x0C, 0x0D, 0x20, 0xA0, 0x1680, 0x2028, 0x2029, 0x202F,
                0x205F, 0x3000, 0xFEFF]
      \<or> (0x2000 \<le> c \<and> c \<le> 0x200A))"

definition trim :: "jstring \<Rightarrow> jstring" where
  "trim s = rev (dropWhile is_space (rev (dropWhile is_space s)))"

text \<open>\<open>s.includes(pat)\<close> and \<open>s.startsWith(pat)\<close>.\<close>

fun str_includes :: "'a list \<Rightarrow> 'a list \<Rightarrow> bool" where
  "str_includes [] pat = (pat = [])"
| "str_includes (c # cs) pat = (prefix pat (c # cs) \<or> str_includes cs pat)"

definition startsWith :: "'a list \<Rightarrow> 'a list \<Rightarrow> bool" where
  "startsWith s pat = prefix pat s"

text \<open>
  \<open>a || b\<close> where \<open>a\<close> is a string or \<open>undefined\<close>: the empty string and
  \<open>undefined\<close> are falsy.
\<close>

definition truthy :: "jstring option \<Rightarrow> bool" where
  "truthy a = (case a of None \<Rightarrow> False | Some s \<Rightarrow> s \<noteq> [])"

definition str_or :: "jstring option \<Rightarrow> jstring \<Rightarrow> jstring" where
  "str_or a b = (case a of None \<Rightarrow> b | Some s \<Rightarrow> if s \<noteq> [] then s else b)"

text \<open>
  \<open>s.replace(/<[^>]*>/g, '')\<close>: a \<open><\<close> (code unit 60) that is followed, anywhere
  later, by a \<open>>\<close> (code unit 62) is removed together with everything up to the first
  such \<open>>\<close>; a \<open><\<close> with no \<open>>\<close> after it stays.
\<close>

function strip_tags :: "jstring \<Rightarrow> jstring" where
  "strip_tags [] = []"
| "strip_tags (c # cs) =
     (if c = 60 \<and> 62 \<in> set cs
      then strip_tags (tl (dropWhile (\<lambda>x. x \<noteq> 62) cs))
      else c # strip_tags cs)"
  by pat_completeness auto
termination
proof (relation "measure length")
  show "wf (measure length)" by simp
next
  fix c :: code_unit and cs :: jstring
  have "length (tl (dropWhile (\<lambda>x. x \<noteq> 62) cs)) \<le> length cs"
    using length_dropWhile_le [of "\<lambda>x. x \<noteq> 62" cs] by simp
  then show "(tl (dropWhile (\<lambda>x. x \<noteq> 62) cs), c # cs) \<in> measure length"
    by simp
next
  fix c :: code_unit and cs :: jstring
  show "(cs, c # cs) \<in> measure length" by simp
qed

text \<open>\<open>s.replace(/pat/g, rep)\<close> for a literal, non-empty pattern.\<close>

function replaceAll :: "jstring \<Rightarrow> jstring \<Rightarrow> jstring \<Rightarrow> jstring" where
  "replaceAll pat rep [] = []"
| "replaceAll pat rep (c # cs) =
     (if pat \<noteq> [] \<and> prefix pat (c # cs)
      then rep @ replaceAll pat rep (drop (length pat) (c # cs))
      else c # replaceAll pat rep cs)"
  by pat_completeness auto
termination
  by (relation "measure (\<lambda>(pat, rep, s). length s)") auto

text \<open>The function \<open>stripHtml\<close>.\<close>

definition stripHtml :: "jstring \<Rightarrow> jstring" where
  "stripHtml html =
     trim
      (replaceAll (lit ''&nbsp;'') (lit '' '')
        (replaceAll (lit ''&gt;'') (lit ''>'')
          (replaceAll (lit ''&lt;'') (lit ''<'')
            (replaceAll (lit ''&amp;'') (lit ''&'')
              (replaceAll (lit ''&quot;'') [34]
                (strip_tags html))))))"

text \<open>
  Decimal digits of a number, as a template literal prints it; the digit \<open>d\<close> is
  the code unit \<open>48 + d\<close>.
\<close>

function show_nat :: "nat \<Rightarrow> jstring" where
  "show_nat n =
     (if n < 10 then [48 + n]
      else show_nat (n div 10) @ [48 + n mod 10])"
  by pat_completeness auto
termination
  by (relation "measure id") auto

declare show_nat.simps [simp del]

section \<open>Errors and outbound calls\<close>

text \<open>
  A thrown value. Everything this route throws or receives from the runtime is an
  \<open>Error\<close> object; \<open>message\<close> is its \<open>message\<close> property.
\<close>

datatype js_error = Error jstring | TypeError jstring | SyntaxError jstring

fun message :: "js_error \<Rightarrow> jstring" where
  "message (Error m) = m"
| "message (TypeError m) = m"
| "message (SyntaxError m) = m"

text \<open>
  What \<open>await fetch(...)\<close> followed by reading the body gives: the promise rejects
  (transport error), the response is not \<open>ok\<close> (with its status), reading or parsing
  the body throws, or the body arrives, here already in the form the caller extracts
  from it.
\<close>

datatype 'a fetched = Rejected js_error | NotOk nat | BodyFailed js_error | Ok 'a

text \<open>The five search keywords of \<open>SEARCH_KEYWORDS\<close>, in order, romanised.\<close>

datatype keyword = Hwanyul | Dalleo | Wonhwa | Geumri | HangukEunhaeng

definition SEARCH_KEYWORDS :: "keyword list" where
  "SEARCH_KEYWORDS = [Hwanyul, Dalleo, Wonhwa, Geumri, HangukEunhaeng]"

text \<open>
  \<open>Promise.all\<close> over promises that have all been started: it fulfils with all the
  values in order, or rejects with the rejection that settles first. Which of several
  rejections is first is the network's choice, \<open>first\<close> below; it is one of them.
\<close>

definition settles_first :: "(js_error list \<Rightarrow> js_error) \<Rightarrow> js_error list \<Rightarrow> js_error" where
  "settles_first first es = (if first es \<in> set es then first es else hd es)"

definition Promise_all :: "(js_error list \<Rightarrow> js_error) \<Rightarrow> (js_error + 'a) list \<Rightarrow> js_error + 'a list" where
  "Promise_all first rs =
     (if list_ex isl rs then Inl (settles_first first (map projl (filter isl rs)))
      else Inr (map projr rs))"

section \<open>The live exchange rates\<close>

datatype trend = Up | Down | Stable

text \<open>The interface \<open>ExchangeRateInfo\<close>.\<close>

record ExchangeRateInfo =
  usd :: rat
  usdChange :: rat
  usdTrend :: trend
  jpy :: rat
  eur :: rat
  cny :: rat
  time :: jstring

text \<open>
  One \<open>#exchangeList li\<close> element of the market index page, as the loop body reads
  it: \<open>currencyKey\<close> is \<open>match[1].toLowerCase()\<close> of the link's \<open>href\<close> against
  \<open>/FX_(\w+)KRW/\<close> (\<open>None\<close> when there is no match), \<open>rateNum\<close> and
  \<open>changeNum\<close> are \<open>parseFloat(...) || 0\<close> of the two texts, \<open>isUp\<close> and
  \<open>isDown\<close> the two class tests, \<open>timeText\<close> the trimmed \<open>.time\<close> text.
\<close>

record rate_li =
  currencyKey :: "jstring option"
  rateNum :: rat
  changeNum :: rat
  isUp :: bool
  isDown :: bool
  timeText :: jstring

record rate_entry =
  rate :: rat
  change :: rat
  trend :: trend

text \<open>The body of \<open>$('#exchangeList li').each\<close>, threading \<open>rates\<close> and \<open>time\<close>.\<close>

fun rates_each :: "rate_li list \<Rightarrow> (jstring \<rightharpoonup> rate_entry) \<times> jstring \<Rightarrow> (jstring \<rightharpoonup> rate_entry) \<times> jstring" where
  "rates_each [] st = st"
| "rates_each (el # els) (rates, tm) =
     (case currencyKey el of
        None \<Rightarrow> rates_each els (rates, tm)
      | Some k \<Rightarrow>
          rates_each els
            (rates(k \<mapsto> \<lparr>rate = rateNum el,
                          change = (if isDown el then - changeNum el else changeNum el),
                          trend = (if isUp el then Up else if isDown el then Down else Stable)\<rparr>),
             if tm = [] then timeText el else tm))"

definition zero_rates :: ExchangeRateInfo where
  "zero_rates = \<lparr>usd = 0, usdChange = 0, usdTrend = Stable, jpy = 0, eur = 0, cny = 0, time = []\<rparr>"

text \<open>
  The \<open>try\<close> block of \<open>fetchCurrentExchangeRates\<close> on the page it fetched, and the
  function itself: every failure is caught and gives the all-zero snapshot.
\<close>

definition rates_of_page :: "rate_li list \<Rightarrow> ExchangeRateInfo" where
  "rates_of_page lis =
     (let (rates, tm) = rates_each lis (Map.empty, []) in
      \<lparr>usd = (case rates (lit ''usd'') of None \<Rightarrow> 0 | Some r \<Rightarrow> rate r),
       usdChange = (case rates (lit ''usd'') of None \<Rightarrow> 0 | Some r \<Rightarrow> change r),
       usdTrend = (case rates (lit ''usd'') of None \<Rightarrow> Stable | Some r \<Rightarrow> trend r),
       jpy = (case rates (lit ''jpy'') of None \<Rightarrow> 0 | Some r \<Rightarrow> rate r),
       eur = (case rates (lit ''eur'') of None \<Rightarrow> 0 | Some r \<Rightarrow> rate r),
       cny = (case rates (lit ''cny'') of None \<Rightarrow> 0 | Some r \<Rightarrow> rate r),
       time = tm\<rparr>)"

section \<open>The article page and the finance news list\<close>

text \<open>
  What \<open>crawlNaverNews\<close> selects from a loaded article page: the texts of
  \<open>#dic_area\<close>, \<open>#newsct_article\<close> and \<open>.newsct_article\<close>, and the attributes
  (absent: \<open>None\<close>) of the logo image and of the two \<open>meta\<close> elements.
\<close>

record article_page =
  dic_area :: jstring
  newsct_article_id :: jstring
  newsct_article_class :: jstring
  logo_alt :: "jstring option"
  og_article_author :: "jstring option"
  og_image :: "jstring option"

text \<open>The object \<open>crawlNaverNews\<close> returns when it does not return \<open>null\<close>.\<close>

record crawl_result =
  crawled_content :: jstring
  crawled_source :: jstring
  crawled_thumbnail :: jstring

text \<open>
  One \<open>.realtimeNewsList .newsList dl\<close> element of the finance news page: the
  \<open>href\<close> and \<open>title\<close> attributes of its \<open>.articleSubject a\<close> link, the link's
  text and the text of \<open>.articleSummary\<close>.
\<close>

record finance_dl =
  href :: "jstring option"
  title_attr :: "jstring option"
  link_text :: jstring
  summary_text :: jstring

text \<open>
  \<open>href.match(/article_id=(\d+)&office_id=(\d+)/)\<close>: the two groups of the leftmost
  match. \<open>match_here\<close> matches at the start of its argument.
\<close>

definition is_digit :: "code_unit \<Rightarrow> bool" where
  "is_digit c = (48 \<le> c \<and> c \<le> 57)"

definition match_here :: "jstring \<Rightarrow> (jstring \<times> jstring) option" where
  "match_here s =
     (if prefix (lit ''article_id='') s then
        (let r = drop (length (lit ''article_id='')) s;
             a = takeWhile is_digit r;
             r2 = dropWhile is_digit r
         in if a \<noteq> [] \<and> prefix (lit ''&office_id='') r2 then
              (let b = takeWhile is_digit (drop (length (lit ''&office_id='')) r2)
               in if b \<noteq> [] then Some (a, b) else None)
            else None)
      else None)"

fun match_article :: "jstring \<Rightarrow> (jstring \<times> jstring) option" where
  "match_article [] = None"
| "match_article (c # cs) =
     (case match_here (c # cs) of Some m \<Rightarrow> Some m | None \<Rightarrow> match_article cs)"

text \<open>
  The body of the \<open>each\<close> loop of \<open>fetchNaverFinanceNews\<close> for one element: the item
  it pushes, or nothing. \<open>now\<close> is \<open>new Date().toISOString()\<close>, read when the
  item is pushed.
\<close>

definition finance_item :: "jstring \<Rightarrow> finance_dl \<Rightarrow> NaverNewsItem option" where
  "finance_item now el =
     (let ttl = str_or (title_attr el) (trim (link_text el)) in
      case href el of
        None \<Rightarrow> None
      | Some h \<Rightarrow>
          if h = [] \<or> ttl = [] then None
          else
            (let fullUrl = (if startsWith h (lit ''http'') then h else (lit ''https://finance.naver.com'') @ h);
                 naverNewsUrl =
                   (case match_article h of
                      None \<Rightarrow> fullUrl
                    | Some (article_id, office_id) \<Rightarrow>
                        (lit ''https://n.news.naver.com/mnews/article/'') @ office_id @ (lit ''/'') @ article_id)
             in Some \<lparr>title = stripHtml ttl,
                      originallink = fullUrl,
                      link = naverNewsUrl,
                      description = trim (summary_text el),
                      pubDate = now\<rparr>))"

section \<open>Crawled news, the prompt and the generated value\<close>

text \<open>
  The interface \<open>CrawledNewsItem\<close>. Its \<open>title\<close> and \<open>description\<close> are
  \<open>news_title\<close> and \<open>news_description\<close> here, as a record field name can be used
  once only.
\<close>

record CrawledNewsItem =
  news_title :: jstring
  news_description :: jstring
  content :: jstring
  source :: jstring
  url :: jstring
  publishedAt :: jstring
  isCrawled :: bool
  thumbnail :: jstring

text \<open>
  The prompt, by the values spliced into its template (the fixed wording is left out):
  the rate block, present when \<open>currentRate.usd > 0\<close>, the number of articles, and
  for each numbered article its title and \<open>content.substring(0, 1000)\<close>.
\<close>

record prompt =
  rateInfo :: "ExchangeRateInfo option"
  newsLength :: nat
  newsText :: "(nat \<times> jstring \<times> jstring) list"

text \<open>
  A JavaScript value as \<open>JSON.parse\<close> returns one; an object is the list of its
  properties in insertion order.
\<close>

datatype jsval =
    JNull
  | JBool bool
  | JNum rat
  | JStr jstring
  | JArr "jsval list"
  | JObj "(jstring \<times> jsval) list"

text \<open>
  What constructing the client and \<open>openai.chat.completions.create\<close> give: one of
  them throws or the call rejects, or the call returns choices, of which only
  \<open>message.content\<close> (a string or \<open>null\<close>) is read.
\<close>

datatype completion = CreateRejected js_error | Choices "jstring option list"

text \<open>
  An outbound network call of one request. \<open>Generate p\<close> is entered where
  \<open>analyzeWithOpenAI\<close> goes on to the generative capability with the prompt \<open>p\<close>:
  a list without it means that no request was sent to the capability.
\<close>

datatype call =
    FetchRates
  | Search keyword
  | FetchFinance
  | FetchArticle jstring
  | Generate prompt

section \<open>The world of one request\<close>

text \<open>
  Everything a request reads from outside the module: the environment variables, what
  each outbound call answers, the readings of \<open>new Date().toISOString()\<close> that end
  up in data (\<open>finance_now i\<close> when the element at position \<open>i\<close> of the listing is
  pushed, \<open>generated_now\<close> for \<open>generatedAt\<close>), the runtime's \<open>JSON.parse\<close> (it
  returns the parsed value or throws), and which of several rejected promises settles
  first.
\<close>

record world =
  NAVER_CLIENT_ID :: "jstring option"
  NAVER_CLIENT_SECRET :: "jstring option"
  OPENAI_API_KEY :: "jstring option"
  market_index :: "rate_li list fetched"
  search_api :: "keyword \<Rightarrow> NaverNewsItem list fetched"
  finance_news :: "finance_dl list fetched"
  finance_now :: "nat \<Rightarrow> jstring"
  article :: "jstring \<Rightarrow> article_page fetched"
  create_completion :: "prompt \<Rightarrow> completion"
  JSON_parse :: "jstring \<Rightarrow> js_error + jsval"
  generated_now :: jstring
  first_rejection :: "js_error list \<Rightarrow> js_error"

text \<open>
  Every function that awaits returns the outbound calls it started, in the order in
  which it started them, and its outcome: \<open>Inl\<close> a thrown error, \<open>Inr\<close> the value.
\<close>

definition fetchCurrentExchangeRates :: "world \<Rightarrow> call list \<times> ExchangeRateInfo" where
  "fetchCurrentExchangeRates w =
     ([FetchRates],
      case market_index w of
        Ok lis \<Rightarrow> rates_of_page lis
      | Rejected e \<Rightarrow> zero_rates
      | NotOk st \<Rightarrow> zero_rates
      | BodyFailed e \<Rightarrow> zero_rates)"

section \<open>The content fetcher \<open>crawlNaverNews\<close>\<close>

text \<open>The \<open>try\<close> block, on what the fetch of the article gave.\<close>

definition crawl_try :: "article_page fetched \<Rightarrow> js_error + crawl_result option" where
  "crawl_try f =
     (case f of
        Rejected e \<Rightarrow> Inl e
      | NotOk st \<Rightarrow> Inr None
      | BodyFailed e \<Rightarrow> Inl e
      | Ok p \<Rightarrow>
          (let body = (if dic_area p \<noteq> [] then dic_area p
                       else if newsct_article_id p \<noteq> [] then newsct_article_id p
                       else newsct_article_class p);
               src = str_or (logo_alt p) (str_or (og_article_author p) []);
               thumb = str_or (og_image p) []
           in Inr (Some \<lparr>crawled_content = take 3000 (trim body),
                           crawled_source = trim src,
                           crawled_thumbnail = trim thumb\<rparr>)))"

text \<open>The function: the host test, then the \<open>try\<close> block under its \<open>catch\<close>.\<close>

definition crawlNaverNews :: "world \<Rightarrow> jstring \<Rightarrow> call list \<times> (js_error + crawl_result option)" where
  "crawlNaverNews w u =
     (if \<not> str_includes u (lit ''news.naver.com'') then ([], Inr None)
      else ([FetchArticle u],
            case crawl_try (article w u) of
              Inl e \<Rightarrow> Inr None
            | Inr r \<Rightarrow> Inr r))"

section \<open>The two searches\<close>

definition ENABLE_FINANCE_NEWS_CRAWLING :: bool where
  "ENABLE_FINANCE_NEWS_CRAWLING = True"

definition fetchNaverFinanceNews :: "world \<Rightarrow> call list \<times> NaverNewsItem list" where
  "fetchNaverFinanceNews w =
     (if \<not> ENABLE_FINANCE_NEWS_CRAWLING then ([], [])
      else ([FetchFinance],
            case finance_news w of
              Ok dls \<Rightarrow>
                List.map_filter (\<lambda>(i, el). finance_item (finance_now w i) el)
                  (zip [0..<length dls] dls)
            | Rejected e \<Rightarrow> []
            | NotOk st \<Rightarrow> []
            | BodyFailed e \<Rightarrow> []))"

definition fetchNews :: "world \<Rightarrow> keyword \<Rightarrow> call list \<times> (js_error + NaverNewsItem list)" where
  "fetchNews w query =
     (if \<not> truthy (NAVER_CLIENT_ID w) \<or> \<not> truthy (NAVER_CLIENT_SECRET w)
      then ([], Inl (Error (lit ''Naver API credentials not configured'')))
      else ([Search query],
            case search_api w query of
              Rejected e \<Rightarrow> Inl e
            | NotOk st \<Rightarrow> Inl (Error (lit ''Naver API error: '' @ show_nat st))
            | BodyFailed e \<Rightarrow> Inl e
            | Ok items \<Rightarrow> Inr items))"

section \<open>The batched crawl\<close>

text \<open>\<open>xs.slice(a, b)\<close> for \<open>0 \<le> a \<le> b\<close>.\<close>

definition slice :: "nat \<Rightarrow> nat \<Rightarrow> 'a list \<Rightarrow> 'a list" where
  "slice a b xs = take (b - a) (drop a xs)"

definition batchSize :: nat where
  "batchSize = 5"

text \<open>The arrow function mapped over a batch.\<close>

definition crawl_news :: "world \<Rightarrow> NaverNewsItem \<Rightarrow> call list \<times> (js_error + CrawledNewsItem)" where
  "crawl_news w news =
     (let (cs, r) = crawlNaverNews w (link news) in
      (cs,
       case r of
         Inl e \<Rightarrow> Inl e
       | Inr crawled \<Rightarrow>
           Inr \<lparr>news_title = stripHtml (title news),
                news_description = stripHtml (description news),
                content = (case crawled of None \<Rightarrow> [] | Some c \<Rightarrow> crawled_content c),
                source = (case crawled of None \<Rightarrow> [] | Some c \<Rightarrow> crawled_source c),
                url = link news,
                publishedAt = pubDate news,
                isCrawled = (case crawled of None \<Rightarrow> False | Some c \<Rightarrow> crawled_content c \<noteq> []),
                thumbnail = (case crawled of None \<Rightarrow> [] | Some c \<Rightarrow> crawled_thumbnail c)\<rparr>))"

text \<open>
  The \<open>for\<close> loop of step 2, from index \<open>i\<close> with the calls started and the items
  pushed so far.
\<close>

function crawl_batches ::
  "world \<Rightarrow> NaverNewsItem list \<Rightarrow> nat \<Rightarrow> call list \<times> CrawledNewsItem list
     \<Rightarrow> call list \<times> (js_error + CrawledNewsItem list)" where
  "crawl_batches w uniqueNews i (cs, crawledNews) =
     (if i < length uniqueNews then
        (let batch = slice i (i + batchSize) uniqueNews;
             started = map (crawl_news w) batch;
             cs' = cs @ concat (map fst started)
         in case Promise_all (first_rejection w) (map snd started) of
              Inl e \<Rightarrow> (cs', Inl e)
            | Inr results \<Rightarrow> crawl_batches w uniqueNews (i + batchSize) (cs', crawledNews @ results))
      else (cs, Inr crawledNews))"
  by pat_completeness auto
termination
  by (relation "measure (\<lambda>(w, uniqueNews, i, st). length uniqueNews - i)")
     (auto simp: batchSize_def)

declare crawl_batches.simps [simp del]

section \<open>The synthesizer \<open>analyzeWithOpenAI\<close>\<close>

definition MAX_NEWS_FOR_ANALYSIS :: nat where
  "MAX_NEWS_FOR_ANALYSIS = 50"

definition MAX_CONTENT_LENGTH :: nat where
  "MAX_CONTENT_LENGTH = 1000"

text \<open>
  What \<open>{...v}\<close> copies from a value: the properties of an object, the indexed
  elements of an array or of a string, nothing from a number, a boolean or \<open>null\<close>.
\<close>

definition own_props :: "jsval \<Rightarrow> (jstring \<times> jsval) list" where
  "own_props v =
     (case v of
        JObj kvs \<Rightarrow> kvs
      | JArr xs \<Rightarrow> zip (map show_nat [0..<length xs]) xs
      | JStr s \<Rightarrow> zip (map show_nat [0..<length s]) (map (\<lambda>c. JStr [c]) s)
      | JNull \<Rightarrow> []
      | JBool b \<Rightarrow> []
      | JNum x \<Rightarrow> [])"

text \<open>
  An object literal is filled property by property, a repeated key taking the later
  value: \<open>{...v, k1: a, k2: b}\<close> is \<open>set_prop k2 b (set_prop k1 a (spread v))\<close>.
\<close>

definition spread :: "jsval \<Rightarrow> (jstring \<times> jsval) list" where
  "spread v = new_Map (own_props v)"

definition set_prop :: "jstring \<Rightarrow> jsval \<Rightarrow> (jstring \<times> jsval) list \<Rightarrow> (jstring \<times> jsval) list" where
  "set_prop k v obj = Map_set k v obj"

text \<open>Reading a property: \<open>None\<close> is \<open>undefined\<close>.\<close>

definition get_prop :: "jstring \<Rightarrow> jsval \<Rightarrow> jsval option" where
  "get_prop k v = (case v of JObj kvs \<Rightarrow> map_of kvs k | _ \<Rightarrow> None)"

text \<open>\<open>report.sentiment.score\<close> and \<open>report.sentiment.breakdown\<close>.\<close>

definition sentiment_score :: "jsval \<Rightarrow> jsval option" where
  "sentiment_score report = Option.bind (get_prop (lit ''sentiment'') report) (get_prop (lit ''score''))"

definition sentiment_breakdown :: "jsval \<Rightarrow> jsval option" where
  "sentiment_breakdown report = Option.bind (get_prop (lit ''sentiment'') report) (get_prop (lit ''breakdown''))"

text \<open>One element of \<open>sources\<close>, and one numbered article of the prompt.\<close>

definition source_entry :: "CrawledNewsItem \<Rightarrow> jsval" where
  "source_entry n =
     JObj [(lit ''title'', JStr (news_title n)),
           (lit ''source'', JStr (source n)),
           (lit ''url'', JStr (url n)),
           (lit ''thumbnail'', JStr (thumbnail n))]"

definition prompt_entry :: "nat \<Rightarrow> CrawledNewsItem \<Rightarrow> nat \<times> jstring \<times> jstring" where
  "prompt_entry i n = (i + 1, news_title n, take MAX_CONTENT_LENGTH (content n))"

definition build_prompt :: "CrawledNewsItem list \<Rightarrow> ExchangeRateInfo \<Rightarrow> prompt" where
  "build_prompt newsForAnalysis currentRate =
     \<lparr>rateInfo = (if usd currentRate > 0 then Some currentRate else None),
      newsLength = length newsForAnalysis,
      newsText = map (\<lambda>(i, n). prompt_entry i n) (zip [0..<length newsForAnalysis] newsForAnalysis)\<rparr>"

text \<open>
  \<open>analyzeWithOpenAI\<close>. The result is the object
  \<open>{...result, sources, generatedAt, newsCount}\<close>. \<open>performAnalysis\<close> calls it only
  after the test of the key, so the client is constructed with a non-empty key; a
  client that throws all the same is the case \<open>CreateRejected\<close>.
\<close>

definition crawled_only :: "CrawledNewsItem list \<Rightarrow> CrawledNewsItem list" where
  "crawled_only news = filter (\<lambda>n. isCrawled n \<and> content n \<noteq> []) news"

definition analyzeWithOpenAI :: "world \<Rightarrow> CrawledNewsItem list \<Rightarrow> ExchangeRateInfo \<Rightarrow> call list \<times> (js_error + jsval)" where
  "analyzeWithOpenAI w news currentRate =
     (let crawledNews = crawled_only news;
          newsForAnalysis = slice 0 MAX_NEWS_FOR_ANALYSIS crawledNews;
          p = build_prompt newsForAnalysis currentRate
      in ([Generate p],
          case create_completion w p of
            CreateRejected e \<Rightarrow> Inl e
          | Choices choices \<Rightarrow>
              (case choices of
                 [] \<Rightarrow>
                   Inl (TypeError
                     (lit ''Cannot read properties of undefined (reading 'message')''))
               | c # rest \<Rightarrow>
                   (case JSON_parse w (str_or c (lit ''{}'')) of
                      Inl e \<Rightarrow> Inl e
                    | Inr result \<Rightarrow>
                        Inr (JObj
                          (set_prop (lit ''newsCount'') (JNum (of_nat (length crawledNews)))
                            (set_prop (lit ''generatedAt'') (JStr (generated_now w))
                              (set_prop (lit ''sources'') (JArr (map source_entry newsForAnalysis))
                                (spread result)))))))))"

section \<open>The pipeline \<open>performAnalysis\<close>\<close>

definition trend_json :: "trend \<Rightarrow> jsval" where
  "trend_json t = (case t of Up \<Rightarrow> JStr (lit ''up'') | Down \<Rightarrow> JStr (lit ''down'') | Stable \<Rightarrow> JStr (lit ''stable''))"

definition rate_json :: "ExchangeRateInfo \<Rightarrow> jsval" where
  "rate_json r =
     JObj [(lit ''usd'', JNum (usd r)),
           (lit ''usdChange'', JNum (usdChange r)),
           (lit ''usdTrend'', trend_json (usdTrend r)),
           (lit ''jpy'', JNum (jpy r)),
           (lit ''eur'', JNum (eur r)),
           (lit ''cny'', JNum (cny r)),
           (lit ''time'', JStr (time r))]"

text \<open>The test that guards step 3.\<close>

definition openai_key_missing :: "world \<Rightarrow> bool" where
  "openai_key_missing w =
     (\<not> truthy (OPENAI_API_KEY w) \<or> OPENAI_API_KEY w = Some (lit ''your_openai_api_key_here''))"

text \<open>Step 1 after the searches: merge and remove duplicates.\<close>

definition merge_news :: "NaverNewsItem list list \<Rightarrow> NaverNewsItem list \<Rightarrow> NaverNewsItem list" where
  "merge_news apiNewsResults financeNews = uniqueNews_of (concat apiNewsResults @ financeNews)"

definition performAnalysis :: "world \<Rightarrow> call list \<times> (js_error + jsval)" where
  "performAnalysis w =
     (let (c0, currentRate) = fetchCurrentExchangeRates w;
          searches = map (fetchNews w) SEARCH_KEYWORDS;
          (cf, financeNews) = fetchNaverFinanceNews w;
          c1 = c0 @ concat (map fst searches) @ cf
      in case Promise_all (first_rejection w) (map snd searches) of
           Inl e \<Rightarrow> (c1, Inl e)
         | Inr apiNewsResults \<Rightarrow>
             (let uniqueNews = merge_news apiNewsResults financeNews;
                  (c2, crawl) = crawl_batches w uniqueNews 0 (c1, [])
              in case crawl of
                   Inl e \<Rightarrow> (c2, Inl e)
                 | Inr crawledNews \<Rightarrow>
                     if openai_key_missing w
                     then (c2, Inl (Error (lit ''OpenAI API key not configured'')))
                     else
                       (let (c3, r) = analyzeWithOpenAI w crawledNews currentRate
                        in (c2 @ c3,
                            case r of
                              Inl e \<Rightarrow> Inl e
                            | Inr analysis \<Rightarrow>
                                Inr (JObj (set_prop (lit ''currentRate'') (rate_json currentRate)
                                            (spread analysis)))))))"

section \<open>The cache and the handler \<open>GET\<close>\<close>

text \<open>
  The store behind \<open>unstable_cache\<close> for the single key \<open>CACHE_TAG\<close>: the value and
  the time (milliseconds) at which it was stored.
\<close>

record cache_entry =
  cached_value :: jsval
  createdAt :: int

definition revalidate :: int where
  "revalidate = 600"

text \<open>
  Modelled from the spec: the wrapper \<open>unstable_cache(performAnalysis, ...)\<close> is the
  framework's and not part of the sources. As the specification describes \<open>get(tag)\<close>:
  it returns the memoized value if one is present and unexpired; otherwise it computes
  via the full pipeline, stores the result under the tag and returns it. A computation
  that throws stores nothing.
\<close>

definition getCachedAnalysis :: "world \<Rightarrow> int \<Rightarrow> cache_entry option \<Rightarrow> cache_entry option \<times> call list \<times> (js_error + jsval)" where
  "getCachedAnalysis w now store =
     (let fresh = (case store of
                     None \<Rightarrow> None
                   | Some e \<Rightarrow> if now - createdAt e < revalidate * 1000 then Some (cached_value e) else None)
      in case fresh of
           Some v \<Rightarrow> (store, [], Inr v)
         | None \<Rightarrow>
             (let (cs, r) = performAnalysis w in
              case r of
                Inl e \<Rightarrow> (store, cs, Inl e)
              | Inr v \<Rightarrow> (Some \<lparr>cached_value = v, createdAt = now\<rparr>, cs, Inr v)))"

text \<open>
  The response: the success body \<open>{success: true, data, cached, timing: {total}}\<close> or
  the failure body \<open>{success: false, error}\<close> with status 500.
\<close>

datatype response = Success jsval bool int | Failure jstring

text \<open>
  The readings of \<open>Date.now()\<close> in \<open>GET\<close>: at the start, after
  \<open>getCachedAnalysis\<close> returned, and before the response is built.
\<close>

record request_clock =
  startTime :: int
  afterCached :: int
  endTime :: int

text \<open>
  \<open>GET\<close>, on the value of the \<open>refresh\<close> query parameter, the clock and the store;
  it returns the store after the request, the outbound calls and the response.
\<close>

definition GET :: "world \<Rightarrow> request_clock \<Rightarrow> jstring option \<Rightarrow> cache_entry option \<Rightarrow> cache_entry option \<times> call list \<times> response" where
  "GET w clk refresh store =
     (let forceRefresh = (refresh = Some (lit ''true'')) in
      if forceRefresh then
        (let (cs, r) = performAnalysis w in
         (store, cs,
          case r of
            Inl e \<Rightarrow> Failure (message e)
          | Inr analysis \<Rightarrow> Success analysis False (endTime clk - startTime clk)))
      else
        (let (store', cs, r) = getCachedAnalysis w (startTime clk) store in
         (store', cs,
          case r of
            Inl e \<Rightarrow> Failure (message e)
          | Inr analysis \<Rightarrow>
              Success analysis (afterCached clk - startTime clk < 1000)
                (endTime clk - startTime clk))))"

text \<open>The \<open>data\<close> and \<open>cached\<close> fields of a response; a failure has neither.\<close>

definition response_data :: "response \<Rightarrow> jsval option" where
  "response_data resp = (case resp of Success a c t \<Rightarrow> Some a | Failure m \<Rightarrow> None)"

definition response_cached :: "response \<Rightarrow> bool option" where
  "response_cached resp = (case resp of Success a c t \<Rightarrow> Some c | Failure m \<Rightarrow> None)"

section \<open>The news route\<close>

text \<open>
  \<open>GET\<close> of \<open>src/app/api/news/route.ts\<close> removes duplicates with the same
  expression and then sorts in place with the comparator
  \<open>new Date(b.pubDate).getTime() - new Date(a.pubDate).getTime()\<close>. \<open>getTime\<close> is
  the reading of a date string; the definition covers the lists all of whose dates
  can be read, where the comparator is consistent and the (stable) sort is determined.
\<close>

definition news_route_uniqueNews :: "(jstring \<Rightarrow> int) \<Rightarrow> NaverNewsItem list \<Rightarrow> NaverNewsItem list" where
  "news_route_uniqueNews getTime allNews =
     sort_key (\<lambda>n. - getTime (pubDate n)) (uniqueNews_of allNews)"

section \<open>A sample world\<close>

text \<open>
  Concrete inputs on which the theorems below are run. \<open>JSON_parse_sample\<close> agrees
  with \<open>JSON.parse\<close> on the texts used here: \<open>{}\<close> is the empty object,
  \<open>sentiment_text\<close> is the object \<open>sentiment_value\<close>, and the empty text and
  \<open>not json\<close> are syntax errors.
\<close>

definition sentiment_text :: jstring where
  \<open>sentiment_text =
     (lit ''{"sentiment":{"score":5,"breakdown":{"positive":70,"negative":20,"neutral":20}}}'')\<close>

definition sentiment_value :: jsval where
  "sentiment_value =
     JObj [(lit ''sentiment'',
            JObj [(lit ''score'', JNum 5),
                  (lit ''breakdown'',
                   JObj [(lit ''positive'', JNum 70), (lit ''negative'', JNum 20), (lit ''neutral'', JNum 20)])])]"

definition JSON_parse_sample :: "jstring \<Rightarrow> js_error + jsval" where
  "JSON_parse_sample s =
     (if s = (lit ''{}'') then Inr (JObj [])
      else if s = sentiment_text then Inr sentiment_value
      else if s = [] then Inl (SyntaxError (lit ''Unexpected end of JSON input''))
      else Inl (SyntaxError (lit ''Unexpected token'')))"

definition page_full :: article_page where
  "page_full =
     \<lparr>dic_area = (lit '' The won fell. ''), newsct_article_id = [], newsct_article_class = [],
      logo_alt = Some (lit ''Daily''), og_article_author = None, og_image = Some (lit ''t.png'')\<rparr>"

definition page_empty :: article_page where
  "page_empty =
     \<lparr>dic_area = [], newsct_article_id = [], newsct_article_class = [],
      logo_alt = None, og_article_author = Some (lit ''Wire''), og_image = None\<rparr>"

definition item_old :: NaverNewsItem where
  "item_old =
     \<lparr>title = (lit ''<b>Won</b> falls''), originallink = (lit ''ex.com/1''), link = (lit ''news.naver.com/1''),
      description = (lit ''d1''), pubDate = (lit ''Mon, 01 Jan 2024 09:00:00 +0900'')\<rparr>"

definition item_new :: NaverNewsItem where
  "item_new =
     \<lparr>title = (lit ''Dollar up''), originallink = (lit ''ex.com/2''), link = (lit ''news.naver.com/2''),
      description = (lit ''d2''), pubDate = (lit ''Tue, 02 Jan 2024 09:00:00 +0900'')\<rparr>"

definition item_ext :: NaverNewsItem where
  "item_ext =
     \<lparr>title = (lit ''Rates''), originallink = (lit ''ex.com/3''), link = (lit ''ex.com/3''),
      description = (lit ''d3''), pubDate = (lit ''Tue, 02 Jan 2024 08:00:00 +0900'')\<rparr>"


definition sample_world :: world where
  "sample_world =
     \<lparr>NAVER_CLIENT_ID = Some (lit ''id''),
      NAVER_CLIENT_SECRET = Some (lit ''secret''),
      OPENAI_API_KEY = Some (lit ''sk''),
      market_index = NotOk 503,
      search_api = (\<lambda>k. case k of
                           Hwanyul \<Rightarrow> Ok [item_old]
                         | Dalleo \<Rightarrow> Ok [item_new, item_ext]
                         | Wonhwa \<Rightarrow> Ok []
                         | Geumri \<Rightarrow> Ok []
                         | HangukEunhaeng \<Rightarrow> Ok []),
      finance_news = Ok [],
      finance_now = (\<lambda>i. lit ''2024-01-03T00:00:00.000Z''),
      article = (\<lambda>u. if u = (lit ''news.naver.com/1'') \<or> u = (lit ''news.naver.com/7'') then Ok page_full
                      else if u = (lit ''news.naver.com/2'') then Ok page_empty
                      else if u = (lit ''news.naver.com/3'') then NotOk 404
                      else Rejected (TypeError (lit ''fetch failed''))),
      create_completion = (\<lambda>p. Choices [Some sentiment_text]),
      JSON_parse = JSON_parse_sample,
      generated_now = (lit ''2024-01-03T00:00:05.000Z''),
      first_rejection = hd\<rparr>"

text \<open>
  An article URL on the supported host, a page whose only body text is one no-break
  space, and a page whose body is 3001 times the Hangul syllable U+D658.
\<close>

definition article_url :: jstring where
  "article_url = lit ''https://n.news.naver.com/mnews/article/015/0004891234''"

definition page_nbsp :: article_page where
  "page_nbsp = page_empty\<lparr>dic_area := [0xA0]\<rparr>"

definition page_hangul :: article_page where
  "page_hangul = page_empty\<lparr>dic_area := replicate 3001 0xD658\<rparr>"

text \<open>A store that holds an earlier report, stored at time 0.\<close>

definition old_store :: "cache_entry option" where
  "old_store =
     Some \<lparr>cached_value = JObj [(lit ''generatedAt'', JStr (lit ''2024-01-02T23:55:00.000Z''))],
           createdAt = 0\<rparr>"

definition crawled_full :: CrawledNewsItem where
  "crawled_full =
     \<lparr>news_title = (lit ''Won falls''), news_description = (lit ''d1''), content = (lit ''The won fell.''),
      source = (lit ''Daily''), url = (lit ''news.naver.com/1''),
      publishedAt = (lit ''Mon, 01 Jan 2024 09:00:00 +0900''), isCrawled = True, thumbnail = (lit ''t.png'')\<rparr>"

definition crawled_empty :: CrawledNewsItem where
  "crawled_empty =
     \<lparr>news_title = (lit ''Dollar up''), news_description = (lit ''d2''), content = [],
      source = (lit ''Wire''), url = (lit ''news.naver.com/2''),
      publishedAt = (lit ''Tue, 02 Jan 2024 09:00:00 +0900''), isCrawled = False, thumbnail = []\<rparr>"

definition crawled_ext :: CrawledNewsItem where
  "crawled_ext =
     \<lparr>news_title = (lit ''Rates''), news_description = (lit ''d3''), content = [],
      source = [], url = (lit ''ex.com/3''),
      publishedAt = (lit ''Tue, 02 Jan 2024 08:00:00 +0900''), isCrawled = False, thumbnail = []\<rparr>"


section \<open>Literals\<close>

lemma lit_eq_iff [simp]: "lit a = lit b \<longleftrightarrow> a = b"
proof -
  have "inj (of_char :: char \<Rightarrow> nat)"
    by (rule injI) simp
  then show ?thesis
    by (simp add: lit_def inj_map_eq_map)
qed

lemma lit_empty_iff [simp]: "lit a = [] \<longleftrightarrow> a = []" "[] = lit a \<longleftrightarrow> a = []"
  by (auto simp: lit_def)

lemma lit_append: "lit (a @ b) = lit a @ lit b"
  by (simp add: lit_def)

lemma prefix_lit [simp]: "prefix (lit a) (lit b) \<longleftrightarrow> prefix a b"
proof
  assume "prefix (lit a) (lit b)"
  then obtain r where r: "lit b = lit a @ r" by (auto simp: prefix_def)
  then have "lit a = take (length a) (lit b)" by (simp add: lit_def)
  also have "\<dots> = lit (take (length a) b)" by (simp add: lit_def take_map)
  finally have "a = take (length a) b" by simp
  then show "prefix a b" by (metis take_is_prefix)
next
  assume "prefix a b"
  then show "prefix (lit a) (lit b)" by (auto simp: prefix_def lit_append)
qed

lemma str_includes_lit [simp]: "str_includes (lit s) (lit p) \<longleftrightarrow> str_includes s p"
proof (induction s)
  case Nil
  then show ?case by (simp add: lit_def)
next
  case (Cons c cs)
  have "prefix (lit p) (of_char c # lit cs) \<longleftrightarrow> prefix p (c # cs)"
    using prefix_lit [of p "c # cs"] by (simp add: lit_def)
  with Cons show ?case by (simp add: lit_def)
qed

lemma length_lit [simp]: "length (lit a) = length a"
  by (simp add: lit_def)

lemma trim_empty [simp]: "trim [] = []"
  by (simp add: trim_def)

lemma sample_trim:
  "trim (lit '' The won fell. '') = lit ''The won fell.''"
  "trim (lit ''Daily'') = lit ''Daily''"
  "trim (lit ''Wire'') = lit ''Wire''"
  "trim (lit ''t.png'') = lit ''t.png''"
  by (simp_all add: trim_def is_space_def lit_def)

lemma sample_stripHtml:
  "stripHtml (lit ''<b>Won</b> falls'') = lit ''Won falls''"
  "stripHtml (lit ''Dollar up'') = lit ''Dollar up''"
  "stripHtml (lit ''Rates'') = lit ''Rates''"
  "stripHtml (lit ''d1'') = lit ''d1''"
  "stripHtml (lit ''d2'') = lit ''d2''"
  "stripHtml (lit ''d3'') = lit ''d3''"
  by (simp_all add: stripHtml_def trim_def is_space_def lit_def)

section \<open>Properties of the deduplication\<close>

lemma keys_Map_set:
  "map fst (Map_set k v m) = (if k \<in> fst ` set m then map fst m else map fst m @ [k])"
  by (induction m) auto

lemma map_of_Map_set:
  "map_of (Map_set k v m) = (map_of m)(k \<mapsto> v)"
  by (induction m) (auto simp: fun_eq_iff)

lemma find_app:
  "find P (xs @ ys) = (case find P xs of None \<Rightarrow> find P ys | Some x \<Rightarrow> Some x)"
  by (induction xs) auto

lemma set_first_seen: "set (first_seen ks) = set ks"
  by (induction ks rule: first_seen.induct) auto

lemma distinct_first_seen: "distinct (first_seen ks)"
  by (induction ks rule: first_seen.induct) (auto simp: set_first_seen)

lemma keyset_Map_set: "fst ` set (Map_set k v m) = insert k (fst ` set m)"
  by (induction m) auto

lemma keys_foldl_Map_set:
  "map fst (foldl (\<lambda>m (k, v). Map_set k v m) m es) =
     map fst m @ first_seen (filter (\<lambda>k. k \<notin> fst ` set m) (map fst es))"
proof (induction es arbitrary: m)
  case Nil
  then show ?case by simp
next
  case (Cons e es)
  obtain k v where e: "e = (k, v)" by (cases e)
  have f: "filter (\<lambda>x. x \<notin> insert k (fst ` set m)) (map fst es)
        = filter (\<lambda>x. x \<noteq> k) (filter (\<lambda>k. k \<notin> fst ` set m) (map fst es))"
    by (auto intro: filter_cong)
  show ?case
  proof (cases "k \<in> fst ` set m")
    case True
    then have "insert k (fst ` set m) = fst ` set m" by auto
    with True show ?thesis
      using Cons.IH [of "Map_set k v m"] by (simp add: e keys_Map_set keyset_Map_set)
  next
    case False
    then show ?thesis
      using Cons.IH [of "Map_set k v m"] f by (simp add: e keys_Map_set keyset_Map_set)
  qed
qed

lemma map_of_foldl_Map_set:
  "map_of (foldl (\<lambda>m (k, v). Map_set k v m) m es) = map_of m ++ map_of (rev es)"
proof (induction es arbitrary: m)
  case Nil
  then show ?case by simp
next
  case (Cons e es)
  obtain k v where e: "e = (k, v)" by (cases e)
  show ?case
    using Cons.IH [of "Map_set k v m"]
    by (simp add: e map_of_Map_set map_add_upd_left fun_eq_iff map_add_def split: option.splits)
qed

lemma keys_new_Map: "map fst (new_Map es) = first_seen (map fst es)"
  by (simp add: new_Map_def keys_foldl_Map_set)

lemma map_of_new_Map: "map_of (new_Map es) = map_of (rev es)"
  by (simp add: new_Map_def map_of_foldl_Map_set)

lemma map_of_rev_link:
  "map_of (rev (map (\<lambda>item. (link item, item)) xs)) k = find (\<lambda>m. link m = k) (rev xs)"
  by (induction xs) (auto simp: map_add_def find_app split: option.splits)

lemma uniqueNews_links: "map link (uniqueNews_of xs) = first_seen (map link xs)"
proof -
  let ?es = "map (\<lambda>item. (link item, item)) xs"
  have d: "distinct (map fst (new_Map ?es))"
    by (simp add: keys_new_Map distinct_first_seen)
  have "\<forall>p \<in> set (new_Map ?es). fst p = link (snd p)"
  proof
    fix p assume p: "p \<in> set (new_Map ?es)"
    then have "map_of (new_Map ?es) (fst p) = Some (snd p)"
      using map_of_eq_Some_iff [OF d, of "fst p" "snd p"] by simp
    then have "find (\<lambda>m. link m = fst p) (rev xs) = Some (snd p)"
      by (simp add: map_of_new_Map map_of_rev_link)
    then show "fst p = link (snd p)"
      by (auto simp: find_Some_iff)
  qed
  then have "map (\<lambda>p. link (snd p)) (new_Map ?es) = map fst (new_Map ?es)"
    by (auto intro: map_cong)
  then show ?thesis
    by (simp add: uniqueNews_of_def Map_values_def keys_new_Map comp_def)
qed

lemma uniqueNews_last:
  assumes "n \<in> set (uniqueNews_of xs)"
  shows "find (\<lambda>m. link m = link n) (rev xs) = Some n"
proof -
  let ?es = "map (\<lambda>item. (link item, item)) xs"
  have d: "distinct (map fst (new_Map ?es))"
    by (simp add: keys_new_Map distinct_first_seen)
  from assms obtain k where p: "(k, n) \<in> set (new_Map ?es)"
    by (auto simp: uniqueNews_of_def Map_values_def)
  then have "map_of (new_Map ?es) k = Some n"
    using d by simp
  then have f: "find (\<lambda>m. link m = k) (rev xs) = Some n"
    by (simp add: map_of_new_Map map_of_rev_link)
  then have "k = link n" by (auto simp: find_Some_iff)
  with f show ?thesis by simp
qed

text \<open>
  C2 (as the code has it). The deduplicated list holds every link exactly once, in the
  order in which the links are first seen, and the entry kept for a link is its LAST
  occurrence in iteration order: \<open>Map.prototype.set\<close> overwrites the value of a key
  that is already present. Title, description and date of a duplicated link are
  therefore those of the last occurrence, not of the first.
\<close>

theorem uniqueNews_of_keeps_last:
  "distinct (map link (uniqueNews_of allNews)) \<and>
   set (map link (uniqueNews_of allNews)) = set (map link allNews) \<and>
   map link (uniqueNews_of allNews) = first_seen (map link allNews) \<and>
   (\<forall>n \<in> set (uniqueNews_of allNews).
      find (\<lambda>m. link m = link n) (rev allNews) = Some n)"
  by (simp add: uniqueNews_links distinct_first_seen set_first_seen uniqueNews_last)

theorem uniqueNews_of_keeps_last_witness:
  "map link (uniqueNews_of
     [\<lparr>title = (lit ''A1''), originallink = (lit ''o1''), link = (lit ''u''), description = (lit ''d1''), pubDate = (lit ''p1'')\<rparr>,
      \<lparr>title = (lit ''B''), originallink = (lit ''o2''), link = (lit ''w''), description = (lit ''d2''), pubDate = (lit ''p2'')\<rparr>,
      \<lparr>title = (lit ''A2''), originallink = (lit ''o3''), link = (lit ''u''), description = (lit ''d3''), pubDate = (lit ''p3'')\<rparr>])
     = [(lit ''u''), (lit ''w'')] \<and>
   find (\<lambda>m. link m = (lit ''u'')) (rev
     [\<lparr>title = (lit ''A1''), originallink = (lit ''o1''), link = (lit ''u''), description = (lit ''d1''), pubDate = (lit ''p1'')\<rparr>,
      \<lparr>title = (lit ''B''), originallink = (lit ''o2''), link = (lit ''w''), description = (lit ''d2''), pubDate = (lit ''p2'')\<rparr>,
      \<lparr>title = (lit ''A2''), originallink = (lit ''o3''), link = (lit ''u''), description = (lit ''d3''), pubDate = (lit ''p3'')\<rparr>])
     = Some \<lparr>title = (lit ''A2''), originallink = (lit ''o3''), link = (lit ''u''), description = (lit ''d3''), pubDate = (lit ''p3'')\<rparr>"
  using uniqueNews_of_keeps_last [of
     "[\<lparr>title = (lit ''A1''), originallink = (lit ''o1''), link = (lit ''u''), description = (lit ''d1''), pubDate = (lit ''p1'')\<rparr>,
      \<lparr>title = (lit ''B''), originallink = (lit ''o2''), link = (lit ''w''), description = (lit ''d2''), pubDate = (lit ''p2'')\<rparr>,
      \<lparr>title = (lit ''A2''), originallink = (lit ''o3''), link = (lit ''u''), description = (lit ''d3''), pubDate = (lit ''p3'')\<rparr>]"]
  by simp

text \<open>
  C2 as the specification states it fails: with two search results for the same link,
  the entry that is kept carries the title, description and date of the second one.
\<close>

theorem uniqueNews_of_first_occurrence_counterexample:
  "map (\<lambda>n. (title n, description n, pubDate n)) (uniqueNews_of
     [\<lparr>title = (lit ''first''), originallink = (lit ''o1''), link = (lit ''u''), description = (lit ''d1''), pubDate = (lit ''p1'')\<rparr>,
      \<lparr>title = (lit ''second''), originallink = (lit ''o2''), link = (lit ''u''), description = (lit ''d2''), pubDate = (lit ''p2'')\<rparr>])
   = [(lit ''second'', (lit ''d2''), (lit ''p2''))]"
  by (simp add: uniqueNews_of_def new_Map_def Map_values_def)

section \<open>Properties of the synthesizer\<close>

lemma map_of_set_prop:
  "map_of (set_prop k v obj) k' = (if k' = k then Some v else map_of obj k')"
  by (simp add: set_prop_def map_of_Map_set)

lemma slice0: "slice 0 n xs = take n xs"
  by (simp add: slice_def)

lemma analyze_calls:
  "fst (analyzeWithOpenAI w news r) =
     [Generate (build_prompt (take MAX_NEWS_FOR_ANALYSIS (crawled_only news)) r)]"
  by (simp add: analyzeWithOpenAI_def Let_def slice0)

lemma analyze_sources:
  assumes "snd (analyzeWithOpenAI w news r) = Inr report"
  shows "get_prop (lit ''sources'') report =
           Some (JArr (map source_entry (take MAX_NEWS_FOR_ANALYSIS (crawled_only news))))"
  using assms
  by (auto simp: analyzeWithOpenAI_def Let_def slice0 get_prop_def map_of_set_prop
           split: completion.splits list.splits sum.splits)

lemma prompt_articles:
  "map snd (newsText (build_prompt sel r)) =
     map (\<lambda>n. (news_title n, take MAX_CONTENT_LENGTH (content n))) sel"
proof -
  let ?F = "\<lambda>n. (news_title n, take MAX_CONTENT_LENGTH (content n))"
  have z: "map snd (zip [0..<length sel] sel) = sel"
    by (simp add: map_snd_zip)
  have "map snd (map (\<lambda>(i, n). prompt_entry i n) (zip [0..<length sel] sel))
          = map (\<lambda>p. ?F (snd p)) (zip [0..<length sel] sel)"
    by (simp add: prompt_entry_def case_prod_beta)
  also have "\<dots> = map ?F (map snd (zip [0..<length sel] sel))"
    by (simp only: map_map comp_def)
  also have "\<dots> = map ?F sel"
    by (simp only: z)
  finally show ?thesis by (simp add: build_prompt_def)
qed

lemma selected_enriched:
  "set (take n (crawled_only news)) \<subseteq> {a \<in> set news. isCrawled a \<and> content a \<noteq> []}"
proof
  fix a assume "a \<in> set (take n (crawled_only news))"
  then have "a \<in> set (crawled_only news)" by (rule in_set_takeD)
  then show "a \<in> {a \<in> set news. isCrawled a \<and> content a \<noteq> []}"
    by (simp add: crawled_only_def)
qed

text \<open>
  C1. The synthesizer submits one prompt, built from the items that pass the filter
  \<open>isCrawled && content\<close>, cut to the first 50. Whatever the generative capability
  answers and whatever \<open>JSON.parse\<close> makes of it, the \<open>sources\<close> of a returned
  report are exactly these items, in order: every source is an enriched item of the
  input with non-empty text, and it is one of the articles of the prompt.
\<close>

theorem sources_are_the_prompted_enriched_articles:
  "fst (analyzeWithOpenAI w news r) =
     [Generate (build_prompt (take MAX_NEWS_FOR_ANALYSIS (crawled_only news)) r)] \<and>
   map snd (newsText (build_prompt (take MAX_NEWS_FOR_ANALYSIS (crawled_only news)) r)) =
     map (\<lambda>n. (news_title n, take MAX_CONTENT_LENGTH (content n)))
       (take MAX_NEWS_FOR_ANALYSIS (crawled_only news)) \<and>
   (\<forall>report. snd (analyzeWithOpenAI w news r) = Inr report \<longrightarrow>
      get_prop (lit ''sources'') report =
        Some (JArr (map source_entry (take MAX_NEWS_FOR_ANALYSIS (crawled_only news))))) \<and>
   (\<forall>n \<in> set (take MAX_NEWS_FOR_ANALYSIS (crawled_only news)).
      n \<in> set news \<and> isCrawled n \<and> content n \<noteq> [])"
  using selected_enriched [of MAX_NEWS_FOR_ANALYSIS news]
  by (auto simp: analyze_calls prompt_articles analyze_sources)


lemma crawled_only_sample:
  "crawled_only [crawled_full, crawled_empty, crawled_ext] = [crawled_full]"
  by (simp add: crawled_only_def crawled_full_def crawled_empty_def crawled_ext_def)

lemma analyze_sample_returns:
  "snd (analyzeWithOpenAI sample_world [crawled_full, crawled_empty, crawled_ext] zero_rates)
     = Inr (projr (snd (analyzeWithOpenAI sample_world [crawled_full, crawled_empty, crawled_ext] zero_rates)))"
  by (simp add: analyzeWithOpenAI_def Let_def sample_world_def str_or_def JSON_parse_sample_def
        sentiment_text_def)

theorem sources_are_the_prompted_enriched_articles_witness:
  "get_prop (lit ''sources'')
     (projr (snd (analyzeWithOpenAI sample_world [crawled_full, crawled_empty, crawled_ext] zero_rates)))
     = Some (JArr [JObj [(lit ''title'', JStr (lit ''Won falls'')), (lit ''source'', JStr (lit ''Daily'')),
                         (lit ''url'', JStr (lit ''news.naver.com/1'')), (lit ''thumbnail'', JStr (lit ''t.png''))]]) \<and>
   fst (analyzeWithOpenAI sample_world [crawled_full, crawled_empty, crawled_ext] zero_rates)
     = [Generate \<lparr>rateInfo = None, newsLength = 1,
                  newsText = [(1, (lit ''Won falls''), (lit ''The won fell.''))]\<rparr>] \<and>
   crawled_full \<in> set [crawled_full, crawled_empty, crawled_ext] \<and>
   isCrawled crawled_full \<and> content crawled_full \<noteq> []"
proof -
  let ?news = "[crawled_full, crawled_empty, crawled_ext]"
  have sel: "take MAX_NEWS_FOR_ANALYSIS (crawled_only ?news) = [crawled_full]"
    by (simp add: crawled_only_sample MAX_NEWS_FOR_ANALYSIS_def)
  have p: "build_prompt [crawled_full] zero_rates =
             \<lparr>rateInfo = None, newsLength = 1, newsText = [(1, (lit ''Won falls''), (lit ''The won fell.''))]\<rparr>"
    by (simp add: build_prompt_def zero_rates_def prompt_entry_def crawled_full_def
          MAX_CONTENT_LENGTH_def)
  have e: "source_entry crawled_full =
             JObj [(lit ''title'', JStr (lit ''Won falls'')), (lit ''source'', JStr (lit ''Daily'')),
                   (lit ''url'', JStr (lit ''news.naver.com/1'')), (lit ''thumbnail'', JStr (lit ''t.png''))]"
    by (simp add: source_entry_def crawled_full_def)
  have f: "isCrawled crawled_full \<and> content crawled_full \<noteq> []"
    by (simp add: crawled_full_def)
  show ?thesis
    using sources_are_the_prompted_enriched_articles [of sample_world ?news zero_rates]
      analyze_sample_returns
    by (simp add: sel p e f)
qed

section \<open>Properties of the batched crawl\<close>

lemma crawlNaverNews_returns:
  "snd (crawlNaverNews w u) = Inr (projr (snd (crawlNaverNews w u)))"
  by (simp add: crawlNaverNews_def split: sum.splits)

lemma crawl_news_returns:
  "snd (crawl_news w n) = Inr (projr (snd (crawl_news w n)))"
proof -
  obtain cs r where c: "crawlNaverNews w (link n) = (cs, r)"
    by (cases "crawlNaverNews w (link n)")
  with crawlNaverNews_returns [of w "link n"] have "r = Inr (projr r)" by simp
  then obtain v where "r = Inr v" ..
  with c show ?thesis by (simp add: crawl_news_def)
qed

lemma Promise_all_fulfilled:
  "Promise_all first (map (\<lambda>x. Inr (g x)) xs) = Inr (map g xs)"
  by (simp add: Promise_all_def list_ex_iff comp_def)

lemma batch_results:
  "Promise_all first (map snd (map (crawl_news w) batch))
     = Inr (map (\<lambda>n. projr (snd (crawl_news w n))) batch)"
proof -
  have "map snd (map (crawl_news w) batch)
          = map (\<lambda>n. Inr (projr (snd (crawl_news w n)))) batch"
    using crawl_news_returns by (simp add: comp_def)
  then show ?thesis by (simp only: Promise_all_fulfilled)
qed

lemma batch_results_comp:
  "Promise_all first (map (snd \<circ> crawl_news w) batch)
     = Inr (map (\<lambda>n. projr (snd (crawl_news w n))) batch)"
  using batch_results [of first w batch] by simp

lemma batch_then_rest:
  "slice i (i + batchSize) xs @ drop (i + batchSize) xs = drop i xs"
proof -
  have "take batchSize (drop i xs) @ drop batchSize (drop i xs) = drop i xs"
    by (rule append_take_drop_id)
  then show ?thesis by (simp add: slice_def add.commute)
qed

lemma crawl_batches_eq:
  "crawl_batches w xs i (cs, acc) =
     (cs @ concat (map (\<lambda>n. fst (crawl_news w n)) (drop i xs)),
      Inr (acc @ map (\<lambda>n. projr (snd (crawl_news w n))) (drop i xs)))"
proof (induction "length xs - i" arbitrary: i cs acc rule: less_induct)
  case less
  show ?case
  proof (cases "i < length xs")
    case False
    then show ?thesis by (subst crawl_batches.simps) simp
  next
    case True
    let ?batch = "slice i (i + batchSize) xs"
    let ?cs' = "cs @ concat (map fst (map (crawl_news w) ?batch))"
    let ?acc' = "acc @ map (\<lambda>n. projr (snd (crawl_news w n))) ?batch"
    have step: "crawl_batches w xs i (cs, acc) = crawl_batches w xs (i + batchSize) (?cs', ?acc')"
      using True by (subst crawl_batches.simps) (simp add: Let_def batch_results_comp)
    have "length xs - (i + batchSize) < length xs - i"
      using True by (simp add: batchSize_def)
    then have ih: "crawl_batches w xs (i + batchSize) (?cs', ?acc') =
        (?cs' @ concat (map (\<lambda>n. fst (crawl_news w n)) (drop (i + batchSize) xs)),
         Inr (?acc' @ map (\<lambda>n. projr (snd (crawl_news w n))) (drop (i + batchSize) xs)))"
      by (rule less.hyps)
    have a: "map (\<lambda>n. projr (snd (crawl_news w n))) ?batch
              @ map (\<lambda>n. projr (snd (crawl_news w n))) (drop (i + batchSize) xs)
            = map (\<lambda>n. projr (snd (crawl_news w n))) (drop i xs)"
      by (simp only: map_append [symmetric] batch_then_rest)
    have b: "concat (map fst (map (crawl_news w) ?batch))
              @ concat (map (\<lambda>n. fst (crawl_news w n)) (drop (i + batchSize) xs))
            = concat (map (\<lambda>n. fst (crawl_news w n)) (drop i xs))"
    proof -
      have "map fst (map (crawl_news w) ?batch) = map (\<lambda>n. fst (crawl_news w n)) ?batch"
        by (simp add: comp_def)
      then show ?thesis
        by (simp only: concat_append [symmetric] map_append [symmetric] batch_then_rest)
    qed
    show ?thesis
      using a b by (simp only: step ih append_assoc)
  qed
qed






section \<open>Properties of the content fetcher\<close>

lemma dropWhile_replicate_not:
  "\<not> P x \<Longrightarrow> dropWhile P (replicate n x) = replicate n x"
  by (cases n) simp_all

lemma trim_replicate:
  "\<not> is_space x \<Longrightarrow> trim (replicate n x) = replicate n x"
  by (simp add: trim_def dropWhile_replicate_not)

lemma trim_nbsp: "trim [0xA0] = []"
  by (simp add: trim_def is_space_def)

lemma article_url_supported: "str_includes article_url (lit ''news.naver.com'')"
  by (simp add: article_url_def)

text \<open>
  C5 (as the code has it). \<open>crawlNaverNews\<close> never throws. For a URL that does not
  contain the supported host it returns \<open>null\<close> without any outbound call; when the
  fetch rejects, the response is not \<open>ok\<close>, or reading or loading the body throws, it
  returns \<open>null\<close>. When the page loads it returns an object: its \<open>content\<close> is the
  text of the first body selector that is not empty, trimmed and cut to its first 3000
  code units, its \<open>source\<close> and \<open>thumbnail\<close> are the trimmed attribute values. That
  is so also when none of the body selectors finds text; then the object's
  \<open>content\<close> is empty.
\<close>

theorem crawlNaverNews_outcomes:
  "(\<exists>r. snd (crawlNaverNews w u) = Inr r) \<and>
   (\<not> str_includes u (lit ''news.naver.com'') \<longrightarrow> crawlNaverNews w u = ([], Inr None)) \<and>
   (str_includes u (lit ''news.naver.com'') \<longrightarrow>
      fst (crawlNaverNews w u) = [FetchArticle u] \<and>
      (case article w u of
         Rejected e \<Rightarrow> snd (crawlNaverNews w u) = Inr None
       | NotOk st \<Rightarrow> snd (crawlNaverNews w u) = Inr None
       | BodyFailed e \<Rightarrow> snd (crawlNaverNews w u) = Inr None
       | Ok p \<Rightarrow>
           snd (crawlNaverNews w u) =
             Inr (Some
               \<lparr>crawled_content =
                  take 3000 (trim (if dic_area p \<noteq> [] then dic_area p
                                   else if newsct_article_id p \<noteq> [] then newsct_article_id p
                                   else newsct_article_class p)),
                crawled_source = trim (str_or (logo_alt p) (str_or (og_article_author p) [])),
                crawled_thumbnail = trim (str_or (og_image p) [])\<rparr>) \<and>
           (dic_area p = [] \<and> newsct_article_id p = [] \<and> newsct_article_class p = [] \<longrightarrow>
              (\<exists>c. snd (crawlNaverNews w u) = Inr (Some c) \<and> crawled_content c = []))))"
  by (auto simp: crawlNaverNews_def crawl_try_def Let_def split: fetched.splits sum.splits)

theorem crawlNaverNews_outcomes_witness:
  "crawlNaverNews (sample_world\<lparr>article := \<lambda>u. Ok page_full\<rparr>) article_url
     = ([FetchArticle article_url],
        Inr (Some \<lparr>crawled_content = lit ''The won fell.'', crawled_source = lit ''Daily'',
                   crawled_thumbnail = lit ''t.png''\<rparr>)) \<and>
   crawlNaverNews sample_world (lit ''https://www.example.com/news/3'') = ([], Inr None) \<and>
   crawlNaverNews (sample_world\<lparr>article := \<lambda>u. NotOk 404\<rparr>) article_url
     = ([FetchArticle article_url], Inr None) \<and>
   crawlNaverNews (sample_world\<lparr>article := \<lambda>u. Rejected (TypeError (lit ''fetch failed''))\<rparr>)
       article_url
     = ([FetchArticle article_url], Inr None) \<and>
   crawlNaverNews (sample_world\<lparr>article := \<lambda>u. BodyFailed (TypeError (lit ''terminated''))\<rparr>)
       article_url
     = ([FetchArticle article_url], Inr None) \<and>
   snd (crawlNaverNews (sample_world\<lparr>article := \<lambda>u. Ok page_nbsp\<rparr>) article_url)
     = Inr (Some \<lparr>crawled_content = [], crawled_source = lit ''Wire'', crawled_thumbnail = []\<rparr>) \<and>
   snd (crawlNaverNews (sample_world\<lparr>article := \<lambda>u. Ok page_hangul\<rparr>) article_url)
     = Inr (Some \<lparr>crawled_content = replicate 3000 0xD658, crawled_source = lit ''Wire'',
                   crawled_thumbnail = []\<rparr>)"
proof -
  note s = article_url_supported
  have n: "\<not> str_includes (lit ''https://www.example.com/news/3'') (lit ''news.naver.com'')"
    by simp
  have h: "\<not> is_space 0xD658"
    by (simp add: is_space_def)
  have a: "crawlNaverNews (sample_world\<lparr>article := \<lambda>u. Ok page_full\<rparr>) article_url
     = ([FetchArticle article_url],
        Inr (Some \<lparr>crawled_content = lit ''The won fell.'', crawled_source = lit ''Daily'',
                   crawled_thumbnail = lit ''t.png''\<rparr>))"
    using crawlNaverNews_outcomes [of "sample_world\<lparr>article := \<lambda>u. Ok page_full\<rparr>" article_url] s
    by (simp add: prod_eq_iff page_full_def sample_trim str_or_def)
  have b: "crawlNaverNews sample_world (lit ''https://www.example.com/news/3'') = ([], Inr None)"
    using crawlNaverNews_outcomes [of sample_world "lit ''https://www.example.com/news/3''"] n
    by simp
  have c: "crawlNaverNews (sample_world\<lparr>article := \<lambda>u. NotOk 404\<rparr>) article_url
     = ([FetchArticle article_url], Inr None)"
    using crawlNaverNews_outcomes [of "sample_world\<lparr>article := \<lambda>u. NotOk 404\<rparr>" article_url] s
    by (simp add: prod_eq_iff)
  have d: "crawlNaverNews (sample_world\<lparr>article := \<lambda>u. Rejected (TypeError (lit ''fetch failed''))\<rparr>)
       article_url
     = ([FetchArticle article_url], Inr None)"
    using crawlNaverNews_outcomes
      [of "sample_world\<lparr>article := \<lambda>u. Rejected (TypeError (lit ''fetch failed''))\<rparr>" article_url] s
    by (simp add: prod_eq_iff)
  have e: "crawlNaverNews (sample_world\<lparr>article := \<lambda>u. BodyFailed (TypeError (lit ''terminated''))\<rparr>)
       article_url
     = ([FetchArticle article_url], Inr None)"
    using crawlNaverNews_outcomes
      [of "sample_world\<lparr>article := \<lambda>u. BodyFailed (TypeError (lit ''terminated''))\<rparr>" article_url] s
    by (simp add: prod_eq_iff)
  have f: "snd (crawlNaverNews (sample_world\<lparr>article := \<lambda>u. Ok page_nbsp\<rparr>) article_url)
     = Inr (Some \<lparr>crawled_content = [], crawled_source = lit ''Wire'', crawled_thumbnail = []\<rparr>)"
    using crawlNaverNews_outcomes [of "sample_world\<lparr>article := \<lambda>u. Ok page_nbsp\<rparr>" article_url] s
    by (simp add: page_nbsp_def page_empty_def trim_nbsp sample_trim str_or_def)
  have g: "snd (crawlNaverNews (sample_world\<lparr>article := \<lambda>u. Ok page_hangul\<rparr>) article_url)
     = Inr (Some \<lparr>crawled_content = replicate 3000 0xD658, crawled_source = lit ''Wire'',
                   crawled_thumbnail = []\<rparr>)"
    using crawlNaverNews_outcomes [of "sample_world\<lparr>article := \<lambda>u. Ok page_hangul\<rparr>" article_url] s
    by (simp add: page_hangul_def page_empty_def trim_replicate [OF h] sample_trim str_or_def)
  show ?thesis
    by (intro conjI) (rule a, rule b, rule c, rule d, rule e, rule f, rule g)
qed

text \<open>
  C5 as the specification states it fails where the page loads but holds no article
  body: the result is an object with empty content, not \<open>null\<close>.
\<close>

theorem crawlNaverNews_empty_body_counterexample:
  "dic_area page_empty = [] \<and> newsct_article_id page_empty = [] \<and>
   newsct_article_class page_empty = [] \<and>
   crawlNaverNews (sample_world\<lparr>article := \<lambda>u. Ok page_empty\<rparr>) article_url
     = ([FetchArticle article_url],
        Inr (Some \<lparr>crawled_content = [], crawled_source = lit ''Wire'', crawled_thumbnail = []\<rparr>)) \<and>
   snd (crawlNaverNews (sample_world\<lparr>article := \<lambda>u. Ok page_empty\<rparr>) article_url) \<noteq> Inr None"
  using article_url_supported
  by (simp add: crawlNaverNews_def crawl_try_def page_empty_def sample_trim str_or_def Let_def)

section \<open>Properties of the parsed generation\<close>

lemma map_of_rev_distinct:
  "distinct (map fst kvs) \<Longrightarrow> map_of (rev kvs) = map_of kvs"
  by (subst map_of_inject_set) (simp_all add: rev_map [symmetric])

lemma spread_object:
  "distinct (map fst kvs) \<Longrightarrow> map_of (spread (JObj kvs)) = map_of kvs"
  by (simp add: spread_def own_props_def map_of_new_Map map_of_rev_distinct)

lemma analyze_result:
  assumes "create_completion w (build_prompt (take MAX_NEWS_FOR_ANALYSIS (crawled_only news)) r)
             = Choices (c # rest)"
  shows "snd (analyzeWithOpenAI w news r) =
           (case JSON_parse w (str_or c (lit ''{}'')) of
              Inl e \<Rightarrow> Inl e
            | Inr result \<Rightarrow>
                Inr (JObj
                  (set_prop (lit ''newsCount'') (JNum (of_nat (length (crawled_only news))))
                    (set_prop (lit ''generatedAt'') (JStr (generated_now w))
                      (set_prop (lit ''sources'')
                        (JArr (map source_entry (take MAX_NEWS_FOR_ANALYSIS (crawled_only news))))
                        (spread result))))))"
  using assms by (simp add: analyzeWithOpenAI_def Let_def slice0)

lemma spread_empty_object: "spread (JObj []) = []"
  by (simp add: spread_def own_props_def new_Map_def)

text \<open>
  C6 (as the code has it). The text handed to \<open>JSON.parse\<close> is
  \<open>content || '{}'\<close>. When the capability's content is a non-empty text that
  \<open>JSON.parse\<close> rejects, the synthesis throws the parser's error and returns no
  report. When the content is \<open>null\<close> or the empty text, \<open>{}\<close> is parsed in its
  place, and the synthesis returns a report that holds only the fields the synthesizer
  attaches itself: \<open>sources\<close>, \<open>generatedAt\<close> and \<open>newsCount\<close>.
\<close>

theorem analyzeWithOpenAI_parse_failure:
  assumes "create_completion w (build_prompt (take MAX_NEWS_FOR_ANALYSIS (crawled_only news)) r)
             = Choices (c # rest)"
  shows "(\<forall>s e. c = Some s \<and> s \<noteq> [] \<and> JSON_parse w s = Inl e \<longrightarrow>
            snd (analyzeWithOpenAI w news r) = Inl e) \<and>
         ((c = None \<or> c = Some []) \<and> JSON_parse w (lit ''{}'') = Inr (JObj []) \<longrightarrow>
            snd (analyzeWithOpenAI w news r) =
              Inr (JObj
                [(lit ''sources'',
                  JArr (map source_entry (take MAX_NEWS_FOR_ANALYSIS (crawled_only news)))),
                 (lit ''generatedAt'', JStr (generated_now w)),
                 (lit ''newsCount'', JNum (of_nat (length (crawled_only news))))]))"
  by (auto simp: analyze_result [OF assms] str_or_def spread_empty_object set_prop_def)


lemma sample_selection:
  "take MAX_NEWS_FOR_ANALYSIS (crawled_only [crawled_full, crawled_empty, crawled_ext]) = [crawled_full]"
  by (simp add: crawled_only_sample MAX_NEWS_FOR_ANALYSIS_def)

lemma sample_source_entry:
  "source_entry crawled_full =
     JObj [(lit ''title'', JStr (lit ''Won falls'')), (lit ''source'', JStr (lit ''Daily'')),
           (lit ''url'', JStr (lit ''news.naver.com/1'')), (lit ''thumbnail'', JStr (lit ''t.png''))]"
  by (simp add: source_entry_def crawled_full_def)

theorem analyzeWithOpenAI_parse_failure_witness:
  "snd (analyzeWithOpenAI (sample_world\<lparr>create_completion := \<lambda>p. Choices [Some (lit ''not json'')]\<rparr>)
          [crawled_full, crawled_empty, crawled_ext] zero_rates)
     = Inl (SyntaxError (lit ''Unexpected token'')) \<and>
   snd (analyzeWithOpenAI (sample_world\<lparr>create_completion := \<lambda>p. Choices [None]\<rparr>)
          [crawled_full, crawled_empty, crawled_ext] zero_rates)
     = Inr (JObj
         [(lit ''sources'',
           JArr [JObj [(lit ''title'', JStr (lit ''Won falls'')), (lit ''source'', JStr (lit ''Daily'')),
                       (lit ''url'', JStr (lit ''news.naver.com/1'')), (lit ''thumbnail'', JStr (lit ''t.png''))]]),
          (lit ''generatedAt'', JStr (lit ''2024-01-03T00:00:05.000Z'')),
          (lit ''newsCount'', JNum 1)])"
proof -
  let ?news = "[crawled_full, crawled_empty, crawled_ext]"
  let ?w1 = "sample_world\<lparr>create_completion := \<lambda>p. Choices [Some (lit ''not json'')]\<rparr>"
  let ?w2 = "sample_world\<lparr>create_completion := \<lambda>p. Choices [None]\<rparr>"
  have p1: "JSON_parse ?w1 (lit ''not json'') = Inl (SyntaxError (lit ''Unexpected token''))"
    by (simp add: sample_world_def JSON_parse_sample_def sentiment_text_def)
  have p2: "JSON_parse ?w2 (lit ''{}'') = Inr (JObj [])"
    by (simp add: sample_world_def JSON_parse_sample_def)
  have g: "generated_now ?w2 = (lit ''2024-01-03T00:00:05.000Z'')"
    by (simp add: sample_world_def)
  have c1: "create_completion ?w1 (build_prompt (take MAX_NEWS_FOR_ANALYSIS (crawled_only ?news)) zero_rates)
              = Choices (Some (lit ''not json'') # [])"
    by simp
  have c2: "create_completion ?w2 (build_prompt (take MAX_NEWS_FOR_ANALYSIS (crawled_only ?news)) zero_rates)
              = Choices (None # [])"
    by simp
  have n: "length (crawled_only ?news) = 1"
    by (simp add: crawled_only_sample)
  show ?thesis
    using analyzeWithOpenAI_parse_failure [OF c1] analyzeWithOpenAI_parse_failure [OF c2] p1 p2
    by (simp add: sample_selection sample_source_entry g n)
qed

text \<open>
  C6 as the specification states it fails for the empty text: \<open>JSON.parse\<close> rejects
  it, yet the synthesis returns a report, one without any of the fields asked of the
  model.
\<close>

theorem analyzeWithOpenAI_empty_content_counterexample:
  "JSON_parse (sample_world\<lparr>create_completion := \<lambda>p. Choices [Some []]\<rparr>) []
     = Inl (SyntaxError (lit ''Unexpected end of JSON input'')) \<and>
   snd (analyzeWithOpenAI (sample_world\<lparr>create_completion := \<lambda>p. Choices [Some []]\<rparr>)
          [crawled_full, crawled_empty, crawled_ext] zero_rates)
     = Inr (JObj
         [(lit ''sources'',
           JArr [JObj [(lit ''title'', JStr (lit ''Won falls'')), (lit ''source'', JStr (lit ''Daily'')),
                       (lit ''url'', JStr (lit ''news.naver.com/1'')), (lit ''thumbnail'', JStr (lit ''t.png''))]]),
          (lit ''generatedAt'', JStr (lit ''2024-01-03T00:00:05.000Z'')),
          (lit ''newsCount'', JNum 1)])"
proof -
  let ?news = "[crawled_full, crawled_empty, crawled_ext]"
  let ?w = "sample_world\<lparr>create_completion := \<lambda>p. Choices [Some []]\<rparr>"
  have p0: "JSON_parse ?w [] = Inl (SyntaxError (lit ''Unexpected end of JSON input''))"
    by (simp add: sample_world_def JSON_parse_sample_def sentiment_text_def)
  have p2: "JSON_parse ?w (lit ''{}'') = Inr (JObj [])"
    by (simp add: sample_world_def JSON_parse_sample_def)
  have g: "generated_now ?w = (lit ''2024-01-03T00:00:05.000Z'')"
    by (simp add: sample_world_def)
  have c: "create_completion ?w (build_prompt (take MAX_NEWS_FOR_ANALYSIS (crawled_only ?news)) zero_rates)
              = Choices (Some [] # [])"
    by simp
  have n: "length (crawled_only ?news) = 1"
    by (simp add: crawled_only_sample)
  show ?thesis
    using p0 p2
    by (simp add: analyze_result [OF c] str_or_def spread_empty_object set_prop_def
          sample_selection sample_source_entry g n)
qed

text \<open>
  C7 (as the code has it). When \<open>JSON.parse\<close> returns an object, the report's
  \<open>sentiment\<close> is the parsed object's \<open>sentiment\<close>, untouched: both
  \<open>sentiment.score\<close> and \<open>sentiment.breakdown\<close> are passed through exactly as the
  generator provided them. The score is not clamped.
\<close>

theorem sentiment_passed_through:
  assumes "create_completion w (build_prompt (take MAX_NEWS_FOR_ANALYSIS (crawled_only news)) r)
             = Choices (c # rest)"
    and "JSON_parse w (str_or c (lit ''{}'')) = Inr (JObj kvs)"
    and "distinct (map fst kvs)"
  shows "\<exists>report. snd (analyzeWithOpenAI w news r) = Inr report \<and>
           get_prop (lit ''sentiment'') report = get_prop (lit ''sentiment'') (JObj kvs) \<and>
           sentiment_score report = sentiment_score (JObj kvs) \<and>
           sentiment_breakdown report = sentiment_breakdown (JObj kvs)"
  using assms(2,3)
  by (simp add: analyze_result [OF assms(1)] get_prop_def sentiment_score_def
        sentiment_breakdown_def map_of_set_prop spread_object)

lemma sample_analysis:
  "snd (analyzeWithOpenAI sample_world [crawled_full, crawled_empty, crawled_ext] zero_rates)
     = Inr (JObj
         [(lit ''sentiment'',
           JObj [(lit ''score'', JNum 5),
                 (lit ''breakdown'',
                  JObj [(lit ''positive'', JNum 70), (lit ''negative'', JNum 20), (lit ''neutral'', JNum 20)])]),
          (lit ''sources'',
           JArr [JObj [(lit ''title'', JStr (lit ''Won falls'')), (lit ''source'', JStr (lit ''Daily'')),
                       (lit ''url'', JStr (lit ''news.naver.com/1'')), (lit ''thumbnail'', JStr (lit ''t.png''))]]),
          (lit ''generatedAt'', JStr (lit ''2024-01-03T00:00:05.000Z'')),
          (lit ''newsCount'', JNum 1)])"
proof -
  let ?news = "[crawled_full, crawled_empty, crawled_ext]"
  have c: "create_completion sample_world
             (build_prompt (take MAX_NEWS_FOR_ANALYSIS (crawled_only ?news)) zero_rates)
              = Choices (Some sentiment_text # [])"
    by (simp add: sample_world_def)
  have t: "sentiment_text \<noteq> []" "sentiment_text \<noteq> (lit ''{}'')"
    by (simp_all add: sentiment_text_def)
  have p: "JSON_parse sample_world (str_or (Some sentiment_text) (lit ''{}'')) = Inr sentiment_value"
    using t by (simp add: sample_world_def JSON_parse_sample_def str_or_def)
  have g: "generated_now sample_world = (lit ''2024-01-03T00:00:05.000Z'')"
    by (simp add: sample_world_def)
  have n: "length (crawled_only ?news) = 1"
    by (simp add: crawled_only_sample)
  show ?thesis
    by (simp add: analyze_result [OF c] p sentiment_value_def spread_def own_props_def new_Map_def
          set_prop_def sample_selection sample_source_entry g n)
qed

theorem sentiment_passed_through_witness:
  "sentiment_breakdown
     (projr (snd (analyzeWithOpenAI sample_world [crawled_full, crawled_empty, crawled_ext] zero_rates)))
     = Some (JObj [(lit ''positive'', JNum 70), (lit ''negative'', JNum 20), (lit ''neutral'', JNum 20)]) \<and>
   sentiment_score
     (projr (snd (analyzeWithOpenAI sample_world [crawled_full, crawled_empty, crawled_ext] zero_rates)))
     = sentiment_score sentiment_value"
proof -
  let ?news = "[crawled_full, crawled_empty, crawled_ext]"
  have c: "create_completion sample_world
             (build_prompt (take MAX_NEWS_FOR_ANALYSIS (crawled_only ?news)) zero_rates)
              = Choices (Some sentiment_text # [])"
    by (simp add: sample_world_def)
  have t: "sentiment_text \<noteq> []" "sentiment_text \<noteq> (lit ''{}'')"
    by (simp_all add: sentiment_text_def)
  have p: "JSON_parse sample_world (str_or (Some sentiment_text) (lit ''{}''))
             = Inr (JObj [(lit ''sentiment'',
                     JObj [(lit ''score'', JNum 5),
                           (lit ''breakdown'',
                            JObj [(lit ''positive'', JNum 70), (lit ''negative'', JNum 20),
                                  (lit ''neutral'', JNum 20)])])])"
    using t by (simp add: sample_world_def JSON_parse_sample_def str_or_def sentiment_value_def)
  have d: "distinct (map fst [(lit ''sentiment'',
                     JObj [(lit ''score'', JNum 5),
                           (lit ''breakdown'',
                            JObj [(lit ''positive'', JNum 70), (lit ''negative'', JNum 20),
                                  (lit ''neutral'', JNum 20)])])])"
    by simp
  from sentiment_passed_through [OF c p d]
  show ?thesis
    by (auto simp: sentiment_value_def sentiment_breakdown_def sentiment_score_def get_prop_def)
qed

text \<open>
  C7 as the specification states it fails: a score of 5 from the generator is the
  score of the report.
\<close>

theorem sentiment_score_not_clamped_counterexample:
  "sentiment_score
     (projr (snd (analyzeWithOpenAI sample_world [crawled_full, crawled_empty, crawled_ext] zero_rates)))
     = Some (JNum 5) \<and>
   \<not> ((5::rat) \<le> 1)"
  by (simp add: sample_analysis sentiment_score_def get_prop_def)

section \<open>Properties of the pipeline and of the handler\<close>

lemma fetchRates_calls: "fst (fetchCurrentExchangeRates w) = [FetchRates]"
  by (simp add: fetchCurrentExchangeRates_def)

lemma performAnalysis_eq:
  "performAnalysis w =
     (let currentRate = snd (fetchCurrentExchangeRates w);
          searches = map (fetchNews w) SEARCH_KEYWORDS;
          c1 = FetchRates # concat (map fst searches) @ fst (fetchNaverFinanceNews w)
      in case Promise_all (first_rejection w) (map snd searches) of
           Inl e \<Rightarrow> (c1, Inl e)
         | Inr apiNewsResults \<Rightarrow>
             (let uniqueNews = merge_news apiNewsResults (snd (fetchNaverFinanceNews w));
                  c2 = c1 @ concat (map (\<lambda>n. fst (crawl_news w n)) uniqueNews);
                  crawledNews = map (\<lambda>n. projr (snd (crawl_news w n))) uniqueNews
              in if openai_key_missing w
                 then (c2, Inl (Error (lit ''OpenAI API key not configured'')))
                 else (c2 @ fst (analyzeWithOpenAI w crawledNews currentRate),
                       case snd (analyzeWithOpenAI w crawledNews currentRate) of
                         Inl e \<Rightarrow> Inl e
                       | Inr analysis \<Rightarrow>
                           Inr (JObj (set_prop (lit ''currentRate'') (rate_json currentRate)
                                       (spread analysis))))))"
  by (simp add: performAnalysis_def Let_def case_prod_beta fetchRates_calls crawl_batches_eq
           split: sum.splits)

lemma sample_searches:
  "map (fetchNews sample_world) SEARCH_KEYWORDS =
     [([Search Hwanyul], Inr [item_old]), ([Search Dalleo], Inr [item_new, item_ext]),
      ([Search Wonhwa], Inr []), ([Search Geumri], Inr []), ([Search HangukEunhaeng], Inr [])]"
  by (simp add: SEARCH_KEYWORDS_def fetchNews_def sample_world_def truthy_def)

lemma sample_merge:
  "merge_news [[item_old], [item_new, item_ext], [], [], []] [] = [item_old, item_new, item_ext]"
  by (simp add: merge_news_def uniqueNews_of_def new_Map_def Map_values_def
        item_old_def item_new_def item_ext_def)


lemma sample_crawl_calls:
  "fst (crawl_news sample_world item_old) = [FetchArticle (lit ''news.naver.com/1'')]"
  "fst (crawl_news sample_world item_new) = [FetchArticle (lit ''news.naver.com/2'')]"
  "fst (crawl_news sample_world item_ext) = []"
  by (simp_all add: crawl_news_def crawlNaverNews_def case_prod_beta item_old_def item_new_def
        item_ext_def)

lemma sample_finance: "fetchNaverFinanceNews sample_world = ([FetchFinance], [])"
  by (simp add: fetchNaverFinanceNews_def ENABLE_FINANCE_NEWS_CRAWLING_def sample_world_def
        List.map_filter_simps)

lemma sample_settled:
  "Promise_all first [Inr [item_old], Inr [item_new, item_ext], Inr [], Inr [], Inr []]
     = Inr [[item_old], [item_new, item_ext], [], [], []]"
  by (simp add: Promise_all_def)

lemma sample_world_fields:
  "NAVER_CLIENT_ID (sample_world\<lparr>OPENAI_API_KEY := k\<rparr>) = Some (lit ''id'')"
  "NAVER_CLIENT_SECRET (sample_world\<lparr>OPENAI_API_KEY := k\<rparr>) = Some (lit ''secret'')"
  "search_api (sample_world\<lparr>OPENAI_API_KEY := k\<rparr>) = search_api sample_world"
  "finance_news (sample_world\<lparr>OPENAI_API_KEY := k\<rparr>) = Ok []"
  "article (sample_world\<lparr>OPENAI_API_KEY := k\<rparr>) = article sample_world"
  by (simp_all add: sample_world_def)

lemma key_only:
  "fetchNews (sample_world\<lparr>OPENAI_API_KEY := k\<rparr>) = fetchNews sample_world"
  "fetchNaverFinanceNews (sample_world\<lparr>OPENAI_API_KEY := k\<rparr>) = fetchNaverFinanceNews sample_world"
  "crawl_news (sample_world\<lparr>OPENAI_API_KEY := k\<rparr>) = crawl_news sample_world"
  by (simp_all add: fun_eq_iff fetchNews_def fetchNaverFinanceNews_def crawl_news_def
        crawlNaverNews_def sample_world_def)

text \<open>
  C9 as the specification states it fails: with no generation credential, nine
  outbound calls are made before the configuration error is thrown.
\<close>

theorem performAnalysis_missing_key_counterexample:
  "performAnalysis (sample_world\<lparr>OPENAI_API_KEY := None\<rparr>) =
     ([FetchRates, Search Hwanyul, Search Dalleo, Search Wonhwa, Search Geumri,
       Search HangukEunhaeng, FetchFinance,
       FetchArticle (lit ''news.naver.com/1''), FetchArticle (lit ''news.naver.com/2'')],
      Inl (Error (lit ''OpenAI API key not configured'')))"
proof -
  have k: "openai_key_missing (sample_world\<lparr>OPENAI_API_KEY := None\<rparr>)"
    by (simp add: openai_key_missing_def truthy_def)
  show ?thesis
    by (simp add: performAnalysis_eq Let_def key_only sample_searches sample_finance
          sample_settled sample_merge sample_crawl_calls k)
qed


lemma search_calls:
  "\<not> isl (snd (fetchNews w k)) \<Longrightarrow> fst (fetchNews w k) = [Search k]"
  by (simp add: fetchNews_def split: if_splits)

lemma no_generate_before_step3:
  "Generate p \<notin> set (fst (fetchNews w k))"
  "Generate p \<notin> set (fst (fetchNaverFinanceNews w))"
  "Generate p \<notin> set (fst (crawl_news w n))"
  by (simp_all add: fetchNews_def fetchNaverFinanceNews_def crawl_news_def crawlNaverNews_def
        case_prod_beta)

lemma finance_calls: "fst (fetchNaverFinanceNews w) = [FetchFinance]"
  by (simp add: fetchNaverFinanceNews_def ENABLE_FINANCE_NEWS_CRAWLING_def)

lemma crawl_news_calls:
  "fst (crawl_news w n) =
     (if str_includes (link n) (lit ''news.naver.com'') then [FetchArticle (link n)] else [])"
  by (simp add: crawl_news_def crawlNaverNews_def case_prod_beta)

lemma article_fetches:
  "concat (map (\<lambda>n. fst (crawl_news w n)) news) =
     map FetchArticle (filter (\<lambda>u. str_includes u (lit ''news.naver.com'')) (map link news))"
  by (induction news) (simp_all add: crawl_news_calls)

lemma Promise_all_fulfils:
  "Promise_all first rs = Inr vs \<Longrightarrow> \<not> list_ex isl rs"
  by (simp add: Promise_all_def split: if_splits)

text \<open>
  C9 (as the code has it). The generation credential is tested at step 3, after the
  rate snapshot, the searches and the crawl. When it is absent (or is the placeholder)
  the generative capability is never called and the request fails, in one of two ways.
  If a search fails, the pipeline stops there with the search's error, after the
  snapshot fetch, the searches that were started and the listing fetch; the credential
  is not tested. If all searches succeed, the pipeline makes the snapshot fetch, the
  five searches, the listing fetch and then the article fetch of every deduplicated
  result whose link is on the supported host, and only after these throws the
  configuration error.
\<close>

theorem performAnalysis_missing_key:
  assumes "openai_key_missing w"
  shows "(\<forall>p. Generate p \<notin> set (fst (performAnalysis w))) \<and>
         (case Promise_all (first_rejection w) (map (\<lambda>k. snd (fetchNews w k)) SEARCH_KEYWORDS) of
            Inl e \<Rightarrow>
              performAnalysis w =
                (FetchRates # concat (map (\<lambda>k. fst (fetchNews w k)) SEARCH_KEYWORDS) @ [FetchFinance],
                 Inl e)
          | Inr apiNewsResults \<Rightarrow>
              performAnalysis w =
                (FetchRates # map Search SEARCH_KEYWORDS @ FetchFinance #
                   map FetchArticle
                     (filter (\<lambda>u. str_includes u (lit ''news.naver.com''))
                        (map link (merge_news apiNewsResults (snd (fetchNaverFinanceNews w))))),
                 Inl (Error (lit ''OpenAI API key not configured''))))"
proof -
  let ?searches = "map (fetchNews w) SEARCH_KEYWORDS"
  let ?c1 = "FetchRates # concat (map fst ?searches) @ fst (fetchNaverFinanceNews w)"
  have m1: "map snd ?searches = map (\<lambda>k. snd (fetchNews w k)) SEARCH_KEYWORDS"
    and m2: "map fst ?searches = map (\<lambda>k. fst (fetchNews w k)) SEARCH_KEYWORDS"
    by simp_all
  have g1: "Generate p \<notin> set ?c1" for p
    by (auto simp: no_generate_before_step3)
  show ?thesis
  proof (cases "Promise_all (first_rejection w) (map snd ?searches)")
    case (Inl e)
    then have pa: "performAnalysis w = (?c1, Inl e)"
      by (simp add: performAnalysis_eq Let_def)
    from Inl have c: "Promise_all (first_rejection w)
        (map (\<lambda>k. snd (fetchNews w k)) SEARCH_KEYWORDS) = Inl e"
      by (simp only: m1)
    have "performAnalysis w =
        (FetchRates # concat (map (\<lambda>k. fst (fetchNews w k)) SEARCH_KEYWORDS) @ [FetchFinance],
         Inl e)"
      by (simp only: pa m2 finance_calls)
    moreover have "\<forall>p. Generate p \<notin> set (fst (performAnalysis w))"
      using g1 by (simp only: pa fst_conv) blast
    ultimately show ?thesis
      by (simp only: c sum.case simp_thms)
  next
    case (Inr api)
    let ?u = "merge_news api (snd (fetchNaverFinanceNews w))"
    let ?crawl = "concat (map (\<lambda>n. fst (crawl_news w n)) ?u)"
    have pa: "performAnalysis w = (?c1 @ ?crawl, Inl (Error (lit ''OpenAI API key not configured'')))"
      using Inr assms by (simp add: performAnalysis_eq Let_def)
    from Inr have c: "Promise_all (first_rejection w)
        (map (\<lambda>k. snd (fetchNews w k)) SEARCH_KEYWORDS) = Inr api"
      by (simp only: m1)
    from Inr have "\<not> list_ex isl (map snd ?searches)"
      by (rule Promise_all_fulfils)
    then have la: "list_all (\<lambda>k. \<not> isl (snd (fetchNews w k))) SEARCH_KEYWORDS"
      by (simp add: list_ex_iff list_all_iff)
    have s: "concat (map fst ?searches) = map Search SEARCH_KEYWORDS"
      using la unfolding SEARCH_KEYWORDS_def by (simp add: search_calls)
    then have s': "concat (map (fst \<circ> fetchNews w) SEARCH_KEYWORDS) = map Search SEARCH_KEYWORDS"
      by simp
    have g2: "Generate p \<notin> set ?crawl" for p
      by (auto simp: no_generate_before_step3)
    have "performAnalysis w =
        (FetchRates # map Search SEARCH_KEYWORDS @ FetchFinance #
           map FetchArticle
             (filter (\<lambda>u. str_includes u (lit ''news.naver.com'')) (map link ?u)),
         Inl (Error (lit ''OpenAI API key not configured'')))"
      by (simp add: pa s' finance_calls article_fetches)
    moreover have "\<forall>p. Generate p \<notin> set (fst (performAnalysis w))"
      using g1 g2 by (simp add: pa)
    ultimately show ?thesis
      by (simp only: c sum.case simp_thms)
  qed
qed

lemma show_nat_500: "show_nat 500 = lit ''500''"
  by (simp add: show_nat.simps [of 500] show_nat.simps [of 50] show_nat.simps [of 5] lit_def)

theorem performAnalysis_missing_key_witness:
  "performAnalysis (sample_world\<lparr>OPENAI_API_KEY := Some (lit ''your_openai_api_key_here'')\<rparr>) =
     ([FetchRates, Search Hwanyul, Search Dalleo, Search Wonhwa, Search Geumri,
       Search HangukEunhaeng, FetchFinance,
       FetchArticle (lit ''news.naver.com/1''), FetchArticle (lit ''news.naver.com/2'')],
      Inl (Error (lit ''OpenAI API key not configured''))) \<and>
   performAnalysis (sample_world\<lparr>OPENAI_API_KEY := None, search_api := \<lambda>k. NotOk 500\<rparr>) =
     ([FetchRates, Search Hwanyul, Search Dalleo, Search Wonhwa, Search Geumri,
       Search HangukEunhaeng, FetchFinance],
      Inl (Error (lit ''Naver API error: 500'')))"
proof -
  let ?w = "sample_world\<lparr>OPENAI_API_KEY := Some (lit ''your_openai_api_key_here'')\<rparr>"
  let ?v = "sample_world\<lparr>OPENAI_API_KEY := None, search_api := \<lambda>k. NotOk 500\<rparr>"
  have k: "openai_key_missing ?w" "openai_key_missing ?v"
    by (simp_all add: openai_key_missing_def truthy_def)
  have sw: "map (\<lambda>k. snd (fetchNews ?w k)) SEARCH_KEYWORDS =
              [Inr [item_old], Inr [item_new, item_ext], Inr [], Inr [], Inr []]"
    using sample_searches by (simp add: key_only SEARCH_KEYWORDS_def)
  have fv: "fetchNews ?v = (\<lambda>k. ([Search k], Inl (Error (lit ''Naver API error: 500''))))"
    by (simp add: fun_eq_iff fetchNews_def sample_world_def truthy_def show_nat_500 lit_append [symmetric])
  have fr: "first_rejection ?v = hd"
    by (simp add: sample_world_def)
  have sv: "Promise_all (first_rejection ?v) (map (\<lambda>k. snd (fetchNews ?v k)) SEARCH_KEYWORDS)
              = Inl (Error (lit ''Naver API error: 500''))"
    by (simp add: fv fr SEARCH_KEYWORDS_def Promise_all_def settles_first_def)
  have l: "link item_old = lit ''news.naver.com/1''" "link item_new = lit ''news.naver.com/2''"
    "link item_ext = lit ''ex.com/3''"
    by (simp_all add: item_old_def item_new_def item_ext_def)
  have cw: "Promise_all (first_rejection ?w) (map (\<lambda>k. snd (fetchNews ?w k)) SEARCH_KEYWORDS)
              = Inr [[item_old], [item_new, item_ext], [], [], []]"
    by (simp only: sw sample_settled)
  from performAnalysis_missing_key [OF k(1)]
  have "performAnalysis ?w =
          (FetchRates # map Search SEARCH_KEYWORDS @ FetchFinance #
             map FetchArticle
               (filter (\<lambda>u. str_includes u (lit ''news.naver.com''))
                  (map link (merge_news [[item_old], [item_new, item_ext], [], [], []]
                     (snd (fetchNaverFinanceNews ?w))))),
           Inl (Error (lit ''OpenAI API key not configured'')))"
    by (simp only: cw sum.case)
  then have a: "performAnalysis ?w =
     ([FetchRates, Search Hwanyul, Search Dalleo, Search Wonhwa, Search Geumri,
       Search HangukEunhaeng, FetchFinance,
       FetchArticle (lit ''news.naver.com/1''), FetchArticle (lit ''news.naver.com/2'')],
      Inl (Error (lit ''OpenAI API key not configured'')))"
    by (simp add: key_only sample_finance sample_merge l SEARCH_KEYWORDS_def)
  from performAnalysis_missing_key [OF k(2)]
  have "performAnalysis ?v =
          (FetchRates # concat (map (\<lambda>k. fst (fetchNews ?v k)) SEARCH_KEYWORDS) @ [FetchFinance],
           Inl (Error (lit ''Naver API error: 500'')))"
    by (simp only: sv sum.case)
  then have b: "performAnalysis ?v =
     ([FetchRates, Search Hwanyul, Search Dalleo, Search Wonhwa, Search Geumri,
       Search HangukEunhaeng, FetchFinance],
      Inl (Error (lit ''Naver API error: 500'')))"
    by (simp add: fv SEARCH_KEYWORDS_def)
  show ?thesis
    by (intro conjI) (rule a, rule b)
qed

lemma sample_crawled:
  "projr (snd (crawl_news sample_world item_old)) = crawled_full"
  "projr (snd (crawl_news sample_world item_new)) = crawled_empty"
  "projr (snd (crawl_news sample_world item_ext)) = crawled_ext"
  by (simp_all add: crawl_news_def crawlNaverNews_def crawl_try_def case_prod_beta Let_def
        item_old_def item_new_def item_ext_def sample_world_def page_full_def page_empty_def
        crawled_full_def crawled_empty_def crawled_ext_def sample_stripHtml sample_trim
        str_or_def)

lemma sample_rates: "snd (fetchCurrentExchangeRates sample_world) = zero_rates"
  by (simp add: fetchCurrentExchangeRates_def sample_world_def)

lemma sample_key: "\<not> openai_key_missing sample_world"
  by (simp add: openai_key_missing_def sample_world_def truthy_def)

lemma sample_performAnalysis:
  "performAnalysis sample_world =
     ([FetchRates, Search Hwanyul, Search Dalleo, Search Wonhwa, Search Geumri,
       Search HangukEunhaeng, FetchFinance,
       FetchArticle (lit ''news.naver.com/1''), FetchArticle (lit ''news.naver.com/2''),
       Generate \<lparr>rateInfo = None, newsLength = 1,
                 newsText = [(1, (lit ''Won falls''), (lit ''The won fell.''))]\<rparr>],
      Inr (JObj
         [(lit ''sentiment'',
           JObj [(lit ''score'', JNum 5),
                 (lit ''breakdown'',
                  JObj [(lit ''positive'', JNum 70), (lit ''negative'', JNum 20), (lit ''neutral'', JNum 20)])]),
          (lit ''sources'',
           JArr [JObj [(lit ''title'', JStr (lit ''Won falls'')), (lit ''source'', JStr (lit ''Daily'')),
                       (lit ''url'', JStr (lit ''news.naver.com/1'')), (lit ''thumbnail'', JStr (lit ''t.png''))]]),
          (lit ''generatedAt'', JStr (lit ''2024-01-03T00:00:05.000Z'')),
          (lit ''newsCount'', JNum 1),
          (lit ''currentRate'',
           JObj [(lit ''usd'', JNum 0), (lit ''usdChange'', JNum 0), (lit ''usdTrend'', JStr (lit ''stable'')),
                 (lit ''jpy'', JNum 0), (lit ''eur'', JNum 0), (lit ''cny'', JNum 0), (lit ''time'', JStr [])])]))"
proof -
  have p: "build_prompt [crawled_full] zero_rates =
             \<lparr>rateInfo = None, newsLength = 1, newsText = [(1, (lit ''Won falls''), (lit ''The won fell.''))]\<rparr>"
    by (simp add: build_prompt_def zero_rates_def prompt_entry_def crawled_full_def
          MAX_CONTENT_LENGTH_def)
  have r: "rate_json zero_rates =
             JObj [(lit ''usd'', JNum 0), (lit ''usdChange'', JNum 0), (lit ''usdTrend'', JStr (lit ''stable'')),
                   (lit ''jpy'', JNum 0), (lit ''eur'', JNum 0), (lit ''cny'', JNum 0), (lit ''time'', JStr [])]"
    by (simp add: rate_json_def zero_rates_def trend_json_def)
  show ?thesis
    by (simp add: performAnalysis_eq Let_def sample_searches sample_finance sample_settled
          sample_merge sample_crawl_calls sample_crawled sample_rates sample_key
          analyze_calls sample_selection p sample_analysis r
          spread_def own_props_def new_Map_def set_prop_def)
qed


lemma GET_forced:
  "GET w clk (Some (lit ''true'')) store =
     (store, fst (performAnalysis w),
      case snd (performAnalysis w) of
        Inl e \<Rightarrow> Failure (message e)
      | Inr analysis \<Rightarrow> Success analysis False (endTime clk - startTime clk))"
  by (simp add: GET_def case_prod_beta)

lemma GET_cache_hit:
  assumes "refresh \<noteq> Some (lit ''true'')"
    and "startTime clk - createdAt e < revalidate * 1000"
  shows "GET w clk refresh (Some e) =
           (Some e, [],
            Success (cached_value e) (afterCached clk - startTime clk < 1000)
              (endTime clk - startTime clk))"
  using assms by (simp add: GET_def getCachedAnalysis_def)

lemma GET_cache_miss:
  assumes "refresh \<noteq> Some (lit ''true'')"
  shows "GET w clk refresh None =
           (case snd (performAnalysis w) of
              Inl e \<Rightarrow> (None, fst (performAnalysis w), Failure (message e))
            | Inr v \<Rightarrow>
                (Some \<lparr>cached_value = v, createdAt = startTime clk\<rparr>, fst (performAnalysis w),
                 Success v (afterCached clk - startTime clk < 1000) (endTime clk - startTime clk)))"
  using assms by (simp add: GET_def getCachedAnalysis_def case_prod_beta split: sum.splits)

text \<open>
  C8 (as the code has it). A request with \<open>refresh=true\<close> always runs the full
  pipeline and answers with its outcome, and it leaves the store of the cache as it
  was: it neither reads nor writes it. A later request without \<open>refresh=true\<close> that
  finds an unexpired entry therefore answers with that entry's value and makes no
  outbound call; one that finds the store empty runs the pipeline again.
\<close>

theorem GET_refresh_bypasses_cache:
  "fst (GET w clk (Some (lit ''true'')) store) = store \<and>
   fst (snd (GET w clk (Some (lit ''true'')) store)) = fst (performAnalysis w) \<and>
   response_data (snd (snd (GET w clk (Some (lit ''true'')) store))) =
     (case snd (performAnalysis w) of Inl e \<Rightarrow> None | Inr analysis \<Rightarrow> Some analysis) \<and>
   (\<forall>e. store = Some e \<and> refresh' \<noteq> Some (lit ''true'') \<and>
        startTime clk' - createdAt e < revalidate * 1000 \<longrightarrow>
      GET w' clk' refresh' (fst (GET w clk (Some (lit ''true'')) store)) =
        (store, [],
         Success (cached_value e) (afterCached clk' - startTime clk' < 1000)
           (endTime clk' - startTime clk'))) \<and>
   (store = None \<and> refresh' \<noteq> Some (lit ''true'') \<longrightarrow>
      fst (snd (GET w' clk' refresh' (fst (GET w clk (Some (lit ''true'')) store)))) =
        fst (performAnalysis w'))"
  by (auto simp: GET_forced GET_cache_hit GET_cache_miss response_data_def split: sum.splits)

theorem GET_refresh_bypasses_cache_witness:
  "fst (GET sample_world \<lparr>startTime = 60000, afterCached = 60000, endTime = 65000\<rparr>
          (Some (lit ''true'')) old_store) = old_store \<and>
   GET sample_world \<lparr>startTime = 120000, afterCached = 120002, endTime = 120003\<rparr> None
     (fst (GET sample_world \<lparr>startTime = 60000, afterCached = 60000, endTime = 65000\<rparr>
             (Some (lit ''true'')) old_store))
     = (old_store, [],
        Success (JObj [(lit ''generatedAt'', JStr (lit ''2024-01-02T23:55:00.000Z''))]) True 3)"
proof -
  let ?A = "\<lparr>startTime = 60000, afterCached = 60000, endTime = 65000\<rparr>"
  let ?B = "\<lparr>startTime = 120000, afterCached = 120002, endTime = 120003\<rparr>"
  note t = GET_refresh_bypasses_cache [of sample_world ?A old_store None ?B sample_world]
  from t have f1: "fst (GET sample_world ?A (Some (lit ''true'')) old_store) = old_store"
    by simp
  let ?e = "\<lparr>cached_value = JObj [(lit ''generatedAt'', JStr (lit ''2024-01-02T23:55:00.000Z''))],
             createdAt = 0\<rparr>"
  have h: "old_store = Some ?e \<and> None \<noteq> Some (lit ''true'') \<and>
           startTime ?B - createdAt ?e < revalidate * 1000"
    by (simp add: old_store_def revalidate_def)
  from t have "\<forall>e. old_store = Some e \<and> None \<noteq> Some (lit ''true'') \<and>
        startTime ?B - createdAt e < revalidate * 1000 \<longrightarrow>
      GET sample_world ?B None (fst (GET sample_world ?A (Some (lit ''true'')) old_store)) =
        (old_store, [],
         Success (cached_value e) (afterCached ?B - startTime ?B < 1000)
           (endTime ?B - startTime ?B))"
    by blast
  with h have "GET sample_world ?B None (fst (GET sample_world ?A (Some (lit ''true'')) old_store)) =
        (old_store, [],
         Success (cached_value ?e) (afterCached ?B - startTime ?B < 1000)
           (endTime ?B - startTime ?B))"
    by blast
  then have f4: "GET sample_world ?B None (fst (GET sample_world ?A (Some (lit ''true'')) old_store))
      = (old_store, [],
         Success (JObj [(lit ''generatedAt'', JStr (lit ''2024-01-02T23:55:00.000Z''))]) True 3)"
    by simp
  show ?thesis
    by (intro conjI) (rule f1, rule f4)
qed

text \<open>
  C8 as the specification states it fails: the forced refresh answers with the report
  generated at 00:00:05, the store still holds the report of 23:55:00, and the next
  request without \<open>refresh\<close>, one minute later, answers with the report of 23:55:00.
\<close>

theorem GET_refresh_replaces_cache_counterexample:
  "Option.bind
     (response_data (snd (snd
        (GET sample_world \<lparr>startTime = 60000, afterCached = 60000, endTime = 65000\<rparr>
           (Some (lit ''true'')) old_store))))
     (get_prop (lit ''generatedAt''))
     = Some (JStr (lit ''2024-01-03T00:00:05.000Z'')) \<and>
   Option.bind
     (response_data (snd (snd
        (GET sample_world \<lparr>startTime = 120000, afterCached = 120002, endTime = 120003\<rparr> None
           (fst (GET sample_world \<lparr>startTime = 60000, afterCached = 60000, endTime = 65000\<rparr>
                   (Some (lit ''true'')) old_store))))))
     (get_prop (lit ''generatedAt''))
     = Some (JStr (lit ''2024-01-02T23:55:00.000Z''))"
  by (simp add: GET_forced sample_performAnalysis response_data_def get_prop_def
        GET_def getCachedAnalysis_def old_store_def revalidate_def)

text \<open>
  C10. A request with \<open>refresh=true\<close> that succeeds answers \<open>cached: false\<close>. A
  request without it that succeeds answers \<open>cached: true\<close> exactly when less than
  1000 ms passed between the start and the return of \<open>getCachedAnalysis\<close>, whatever
  the store held: the flag is read off the clock, not off the cache.
\<close>

theorem GET_cached_flag:
  "(\<forall>a c t. snd (snd (GET w clk (Some (lit ''true'')) store)) = Success a c t \<longrightarrow> c = False) \<and>
   (\<forall>a c t. refresh \<noteq> Some (lit ''true'') \<and> snd (snd (GET w clk refresh store)) = Success a c t \<longrightarrow>
      c = (afterCached clk - startTime clk < 1000))"
  by (auto simp: GET_def getCachedAnalysis_def case_prod_beta Let_def
           split: sum.splits option.splits if_splits)

theorem GET_cached_flag_witness:
  "response_cached (snd (snd
     (GET sample_world \<lparr>startTime = 0, afterCached = 5000, endTime = 5001\<rparr> (Some (lit ''true''))
        old_store))) = Some False \<and>
   GET sample_world \<lparr>startTime = 0, afterCached = 900, endTime = 901\<rparr> None None =
     (Some \<lparr>cached_value = projr (snd (performAnalysis sample_world)), createdAt = 0\<rparr>,
      fst (performAnalysis sample_world),
      Success (projr (snd (performAnalysis sample_world))) True 901) \<and>
   GET sample_world \<lparr>startTime = 1000, afterCached = 2500, endTime = 2501\<rparr> None old_store =
     (old_store, [], Success (JObj [(lit ''generatedAt'', JStr (lit ''2024-01-02T23:55:00.000Z''))]) False 1501)"
proof -
  have a: "snd (snd (GET sample_world \<lparr>startTime = 0, afterCached = 5000, endTime = 5001\<rparr>
                  (Some (lit ''true'')) old_store))
             = Success (projr (snd (performAnalysis sample_world))) False 5001"
    by (simp add: GET_forced sample_performAnalysis)
  have b: "GET sample_world \<lparr>startTime = 0, afterCached = 900, endTime = 901\<rparr> None None =
     (Some \<lparr>cached_value = projr (snd (performAnalysis sample_world)), createdAt = 0\<rparr>,
      fst (performAnalysis sample_world),
      Success (projr (snd (performAnalysis sample_world))) (900 - 0 < (1000::int)) 901)"
    by (simp add: GET_cache_miss sample_performAnalysis)
  have c: "GET sample_world \<lparr>startTime = 1000, afterCached = 2500, endTime = 2501\<rparr> None old_store =
     (old_store, [],
      Success (JObj [(lit ''generatedAt'', JStr (lit ''2024-01-02T23:55:00.000Z''))]) (2500 - 1000 < (1000::int)) 1501)"
    by (simp add: GET_def getCachedAnalysis_def old_store_def revalidate_def)
  show ?thesis
    using GET_cached_flag
      [of sample_world "\<lparr>startTime = 0, afterCached = 5000, endTime = 5001\<rparr>" old_store None]
      a b c
    by (simp add: response_cached_def)
qed


lemma merge_news_order:
  "map link (merge_news apiNewsResults financeNews) =
     first_seen (map link (concat apiNewsResults @ financeNews))"
  by (simp only: merge_news_def uniqueNews_links)

lemma news_route_sorted:
  "sorted_wrt (\<lambda>a b. getTime (pubDate a) \<ge> getTime (pubDate b))
     (news_route_uniqueNews getTime allNews)"
proof -
  have "sorted (map (\<lambda>n. - getTime (pubDate n)) (news_route_uniqueNews getTime allNews))"
    by (simp add: news_route_uniqueNews_def)
  then show ?thesis
    by (simp add: sorted_map sorted_wrt_iff_nth_less)
qed

text \<open>
  C3. \<open>performAnalysis\<close> hands the merged list to the crawl in the order in which
  the links are first seen in the search results; it does not sort it. The news route
  sorts the same list by date (\<open>news_route_sorted\<close>). Here the first keyword's result
  is dated 1 January and the second keyword's results 2 January: the merged list, and
  with it the order of the article fetches, starts with the oldest item.
\<close>

theorem performAnalysis_keeps_search_order:
  "merge_news [[item_old], [item_new, item_ext], [], [], []] [] = [item_old, item_new, item_ext] \<and>
   map pubDate [item_old, item_new, item_ext] =
     [(lit ''Mon, 01 Jan 2024 09:00:00 +0900''), (lit ''Tue, 02 Jan 2024 09:00:00 +0900''),
      (lit ''Tue, 02 Jan 2024 08:00:00 +0900'')] \<and>
   fst (performAnalysis sample_world) =
     [FetchRates, Search Hwanyul, Search Dalleo, Search Wonhwa, Search Geumri,
      Search HangukEunhaeng, FetchFinance,
      FetchArticle (lit ''news.naver.com/1''), FetchArticle (lit ''news.naver.com/2''),
      Generate \<lparr>rateInfo = None, newsLength = 1,
                newsText = [(1, (lit ''Won falls''), (lit ''The won fell.''))]\<rparr>]"
proof -
  have d: "map pubDate [item_old, item_new, item_ext] =
     [(lit ''Mon, 01 Jan 2024 09:00:00 +0900''), (lit ''Tue, 02 Jan 2024 09:00:00 +0900''),
      (lit ''Tue, 02 Jan 2024 08:00:00 +0900'')]"
    by (simp add: item_old_def item_new_def item_ext_def)
  show ?thesis
    by (simp only: sample_merge sample_performAnalysis d fst_conv simp_thms)
qed

section \<open>Further properties of the pipeline\<close>

text \<open>
  The sources of a report that the whole pipeline returns: they are the first 50 of
  the crawled items that are enriched, and each of them comes from a deduplicated
  search result for which \<open>crawlNaverNews\<close> returned an object with non-empty
  content.
\<close>

lemma distinct_keys_Map_set:
  "distinct (map fst m) \<Longrightarrow> distinct (map fst (Map_set k v m))"
  by (auto simp: keys_Map_set)

lemma distinct_keys_spread: "distinct (map fst (spread v))"
  by (simp add: spread_def keys_new_Map distinct_first_seen)

lemma enriched_iff_fetched:
  "isCrawled (projr (snd (crawl_news w n))) \<and> content (projr (snd (crawl_news w n))) \<noteq> [] \<longleftrightarrow>
     (\<exists>c. snd (crawlNaverNews w (link n)) = Inr (Some c) \<and> crawled_content c \<noteq> [])"
  using crawlNaverNews_returns [of w "link n"]
  by (cases "crawlNaverNews w (link n)"; cases "snd (crawlNaverNews w (link n))")
     (auto simp: crawl_news_def split: option.splits)

lemma performAnalysis_sources:
  assumes "snd (performAnalysis w) = Inr report"
  shows "\<exists>uniqueNews sel.
           sel = take MAX_NEWS_FOR_ANALYSIS
                   (crawled_only (map (\<lambda>n. projr (snd (crawl_news w n))) uniqueNews)) \<and>
           get_prop (lit ''sources'') report = Some (JArr (map source_entry sel)) \<and>
           (\<forall>a \<in> set sel. \<exists>n \<in> set uniqueNews. \<exists>c.
              a = projr (snd (crawl_news w n)) \<and>
              snd (crawlNaverNews w (link n)) = Inr (Some c) \<and> crawled_content c \<noteq> [])"
proof -
  let ?searches = "map (fetchNews w) SEARCH_KEYWORDS"
  from assms obtain api where api: "Promise_all (first_rejection w) (map snd ?searches) = Inr api"
    by (cases "Promise_all (first_rejection w) (map snd ?searches)")
       (simp_all add: performAnalysis_eq Let_def)
  let ?u = "merge_news api (snd (fetchNaverFinanceNews w))"
  let ?news = "map (\<lambda>n. projr (snd (crawl_news w n))) ?u"
  let ?r = "snd (fetchCurrentExchangeRates w)"
  let ?sel = "take MAX_NEWS_FOR_ANALYSIS (crawled_only ?news)"
  from assms api obtain analysis where
    a: "snd (analyzeWithOpenAI w ?news ?r) = Inr analysis" and
    rep: "report = JObj (set_prop (lit ''currentRate'') (rate_json ?r) (spread analysis))"
    by (cases "snd (analyzeWithOpenAI w ?news ?r)")
       (auto simp: performAnalysis_eq Let_def split: if_splits)
  from a have s: "get_prop (lit ''sources'') analysis = Some (JArr (map source_entry ?sel))"
    by (rule analyze_sources)
  then obtain kvs where kvs: "analysis = JObj kvs"
    by (cases analysis) (simp_all add: get_prop_def)
  from a kvs have "distinct (map fst kvs)"
    by (auto simp: analyzeWithOpenAI_def Let_def set_prop_def distinct_keys_Map_set
          distinct_keys_spread split: completion.splits list.splits sum.splits)
  then have "map_of (spread analysis) = map_of kvs"
    by (simp add: kvs spread_object)
  with s have g: "get_prop (lit ''sources'') report = Some (JArr (map source_entry ?sel))"
    by (simp add: rep kvs get_prop_def map_of_set_prop)
  have "\<exists>n \<in> set ?u. \<exists>c. a = projr (snd (crawl_news w n)) \<and>
          snd (crawlNaverNews w (link n)) = Inr (Some c) \<and> crawled_content c \<noteq> []"
    if "a \<in> set ?sel" for a
  proof -
    from that have "a \<in> set (crawled_only ?news)" by (rule in_set_takeD)
    then obtain n where n: "n \<in> set ?u" "a = projr (snd (crawl_news w n))"
      and e: "isCrawled a \<and> content a \<noteq> []"
      by (auto simp: crawled_only_def)
    from e n(2) enriched_iff_fetched [of w n] obtain c where
      "snd (crawlNaverNews w (link n)) = Inr (Some c)" "crawled_content c \<noteq> []"
      by auto
    with n show ?thesis by blast
  qed
  with g show ?thesis by blast
qed

text \<open>
  However the two dates of the sample are read, as long as 1 January is read as earlier
  than 2 January, the list that \<open>performAnalysis\<close> hands to the crawl is not sorted
  by date, newest first.
\<close>

lemma sample_merge_unsorted:
  assumes "getTime (lit ''Mon, 01 Jan 2024 09:00:00 +0900'') < getTime (lit ''Tue, 02 Jan 2024 09:00:00 +0900'')"
  shows "\<not> sorted_wrt (\<lambda>a b. getTime (pubDate a) \<ge> (getTime (pubDate b) :: int))
           (merge_news [[item_old], [item_new, item_ext], [], [], []] [])"
  using assms by (simp add: sample_merge) (simp add: item_old_def item_new_def)

end
